theory Spec2Isabelle
  imports Complex_Main "HOL-Library.AList" "HOL-Library.Sublist" "HOL-Library.Signed_Division"
begin

section \<open>wx-sta-agg-influx: the wind direction aggregation engine\<close>

text \<open>
  The sources hold three revisions of \<^verbatim>\<open>wind_direction.go\<close> and two of \<^verbatim>\<open>main.go\<close>:
  \<^item> \<^bold>\<open>wd\<close>: \<^verbatim>\<open>src/wind_direction.go\<close>, called by the \<^verbatim>\<open>main\<close> of
    \<^verbatim>\<open>src/unnamed/part_002\<close>. Unweighted statistics, two cutoffs per interval, one
    point per run stamped with the run time, written inside \<^verbatim>\<open>WindDirectionAgg\<close>.
  \<^item> \<^bold>\<open>p1b\<close>: \<^verbatim>\<open>src/unnamed/part_001\<close> lines 294-614 (its \<^verbatim>\<open>main\<close> is not among
    the sources). Weighted statistics, two cutoffs per interval, one point per interval
    stamped at the middle of the window, written inside \<^verbatim>\<open>WindDirectionAgg\<close>.
  \<^item> \<^bold>\<open>p1a\<close>: \<^verbatim>\<open>src/unnamed/part_001\<close> lines 1-292, called by \<^verbatim>\<open>src/main.go\<close>.
    Weighted statistics, one threshold per interval, one point per interval stamped at
    the middle of the window, returned to \<^verbatim>\<open>main\<close>, which writes them.

  A definition without a suffix embeds text that is the same in every revision that has
  it; a suffix \<open>_wd\<close>, \<open>_p1a\<close>, \<open>_p1b\<close> names the revision a definition embeds.
\<close>

subsection \<open>Go values\<close>

text \<open>
  A \<^verbatim>\<open>time.Time\<close> is the number of nanoseconds since the epoch, a \<^verbatim>\<open>time.Duration\<close>
  a number of nanoseconds held in an \<^verbatim>\<open>int64\<close>. \<^verbatim>\<open>Time.Sub\<close> saturates at the
  ends of the \<^verbatim>\<open>int64\<close> range; \<^verbatim>\<open>time.Since(t)\<close> is \<^verbatim>\<open>time.Now().Sub(t)\<close>.
  A \<^verbatim>\<open>float64\<close> is a real number: the model leaves NaN and the infinities out, and
  every constant a \<^verbatim>\<open>float64\<close> is compared with below is exact in binary.
\<close>

type_synonym Time = int
type_synonym Duration = int

definition Second :: Duration where
  "Second = 1000000000"

definition Minute :: Duration where
  "Minute = 60 * Second"

definition Hour :: Duration where
  "Hour = 60 * Minute"

definition maxDuration :: Duration where
  "maxDuration = 2 ^ 63 - 1"

definition minDuration :: Duration where
  "minDuration = - (2 ^ 63)"

definition Sub :: "Time \<Rightarrow> Time \<Rightarrow> Duration" where
  "Sub t u = (let d = t - u in
     if d > maxDuration then maxDuration
     else if d < minDuration then minDuration
     else d)"

definition Add :: "Time \<Rightarrow> Duration \<Rightarrow> Time" where
  "Add t d = t + d"

text \<open>
  A Go \<^verbatim>\<open>map[string]T\<close> that the program ranges over or hands to a library is an
  association list with one entry per key; the order of the list stands for the order
  in which a \<^verbatim>\<open>range\<close> happens to visit the map, which Go leaves unspecified.
  \<^verbatim>\<open>m[k] = v\<close> is \<open>AList.update k v m\<close>, a lookup is \<open>map_of m k\<close>.
\<close>

type_synonym tags = "(string \<times> string) list"

definition Copy :: "('k \<times> 'v) list \<Rightarrow> ('k \<times> 'v) list \<Rightarrow> ('k \<times> 'v) list" where
  \<comment> \<open>\<^verbatim>\<open>maps.Copy(dst, src)\<close>: \<^verbatim>\<open>for k, v := range src { dst[k] = v }\<close>\<close>
  "Copy dst src = fold (\<lambda>(k, v) m. AList.update k v m) src dst"

text \<open>
  \<^verbatim>\<open>strings.Split(s, sep)\<close> for a separator of one byte (the program splits at
  \<^verbatim>\<open>","\<close> and at \<^verbatim>\<open>"="\<close>): the pieces between the separators, one more than there are
  separators, so that the empty string gives one empty piece.
  \<^verbatim>\<open>strings.Join(parts, sep)\<close> puts the separator between the pieces.
\<close>

fun Split :: "string \<Rightarrow> char \<Rightarrow> string list" where
  "Split [] sep = [[]]"
| "Split (c # cs) sep =
     (if c = sep then [] # Split cs sep
      else (case Split cs sep of
              [] \<Rightarrow> [[c]]
            | p # ps \<Rightarrow> (c # p) # ps))"

fun Join :: "string list \<Rightarrow> string \<Rightarrow> string" where
  "Join [] sep = []"
| "Join [p] sep = p"
| "Join (p # q # ps) sep = p @ sep @ Join (q # ps) sep"

subsection \<open>\<^verbatim>\<open>util.go\<close>\<close>

text \<open>
  \<^verbatim>\<open>ParseTags\<close> returns the error \<^verbatim>\<open>invalid tag: <tag>\<close> as \<open>Inl tag\<close>.
\<close>

fun ParseTags_loop :: "string list \<Rightarrow> tags \<Rightarrow> string + tags" where
  "ParseTags_loop [] retv = Inr retv"
| "ParseTags_loop (tag # rest) retv =
     (let parts = Split tag (CHR ''='') in
      if length parts \<noteq> 2 then Inl tag
      else ParseTags_loop rest (AList.update (parts ! 0) (parts ! 1) retv))"

definition ParseTags :: "string \<Rightarrow> string + tags" where
  "ParseTags tags = ParseTags_loop (Split tags (CHR '','')) []"

definition PartialWhereClauseForTags :: "tags \<Rightarrow> string" where
  "PartialWhereClauseForTags tags =
     (if length tags = 0 then ''''
      else '' AND '' @
        Join (map (\<lambda>(k, v). k @ ''='' @ [CHR 0x27] @ v @ [CHR 0x27]) tags) '' AND '')"

subsection \<open>The tags of a written point\<close>

definition ProductName :: string where
  "ProductName = ''wx-station-aggregator-influx''"

definition aggregator_tag :: "string \<Rightarrow> tags" where
  \<comment> \<open>\<^verbatim>\<open>map[string]string{"aggregator": fmt.Sprintf("%s/%s", ProductName, Version)}\<close>\<close>
  "aggregator_tag Version = [(''aggregator'', ProductName @ ''/'' @ Version)]"

definition write_tags :: "string \<Rightarrow> tags \<Rightarrow> tags" where
  \<comment> \<open>wd lines 250-253, p1b lines 561-564 (\<^verbatim>\<open>tags\<close>), \<^verbatim>\<open>src/main.go\<close> lines 65-68
     (\<^verbatim>\<open>wTags\<close>): the identity tag first, then \<^verbatim>\<open>maps.Copy\<close> of the caller's tags.\<close>
  "write_tags Version caller = Copy (aggregator_tag Version) caller"

subsection \<open>Results, errors and panics\<close>

text \<open>
  A Go function of the program returns, returns an error, or panics. The errors are the
  \<^verbatim>\<open>fmt.Errorf\<close> calls of \<^verbatim>\<open>WindDirectionAgg\<close>, each with the text it wraps; the
  panics are the \<^verbatim>\<open>panic(...)\<close> of the three lookup tables, an index out of range
  (index and length) and a failed type assertion \<^verbatim>\<open>x.(T)\<close> without \<^verbatim>\<open>, ok\<close>.
\<close>

datatype cell = CNil | CString string | CNumber string | CBool bool

datatype error =
    QueryFailed string
  | ExpectedOneResult nat
  | ExpectedOneSeries nat
  | FirstColumnNotTime string
  | SecondColumnNot string string
  | ThirdColumnNot string string
  | ParseTimeFailed string
  | ParseWindDirectionFailed string
  | ParseWindSpeedFailed string
  | WeightedAvgFailed string
  | WeightedStdDevFailed string
  | CreatePointFailed string
  | CreateBatchFailed string

datatype panic =
    UnknownInterval string
  | IndexOutOfRange nat nat
  | InterfaceConversion cell

datatype 'a outcome = Return 'a | Fail error | Panic panic

definition bind :: "'a outcome \<Rightarrow> ('a \<Rightarrow> 'b outcome) \<Rightarrow> 'b outcome" where
  "bind m f = (case m of Return x \<Rightarrow> f x | Fail e \<Rightarrow> Fail e | Panic p \<Rightarrow> Panic p)"

definition index :: "'a list \<Rightarrow> nat \<Rightarrow> 'a outcome" where
  \<comment> \<open>\<^verbatim>\<open>xs[i]\<close>\<close>
  "index xs i = (if i < length xs then Return (xs ! i) else Panic (IndexOutOfRange i (length xs)))"

definition assert_string :: "cell \<Rightarrow> string outcome" where
  \<comment> \<open>\<^verbatim>\<open>x.(string)\<close>\<close>
  "assert_string x = (case x of CString s \<Rightarrow> Return s | _ \<Rightarrow> Panic (InterfaceConversion x))"

definition assert_Number :: "cell \<Rightarrow> string outcome" where
  \<comment> \<open>\<^verbatim>\<open>x.(json.Number)\<close>; a \<^verbatim>\<open>json.Number\<close> is the text of the number\<close>
  "assert_Number x = (case x of CNumber n \<Rightarrow> Return n | _ \<Rightarrow> Panic (InterfaceConversion x))"

text \<open>
  What a run does besides returning: the lines it logs, the queries it sends and the
  batches it hands to \<^verbatim>\<open>Influx.Write\<close>, in order.
\<close>

record Point =
  name :: string
  point_tags :: tags
  point_fields :: "(string \<times> (real + string)) list"
  timestamp :: Time

datatype event = Logged string | Queried string | Wrote "Point list"

type_synonym 'a run = "event list \<times> 'a outcome"

definition andThen :: "'a run \<Rightarrow> ('a \<Rightarrow> 'b run) \<Rightarrow> 'b run" where
  "andThen m f =
     (case m of
        (tr, Return x) \<Rightarrow> (case f x of (tr', r) \<Rightarrow> (tr @ tr', r))
      | (tr, Fail e) \<Rightarrow> (tr, Fail e)
      | (tr, Panic p) \<Rightarrow> (tr, Panic p))"

subsection \<open>The packages the program imports\<close>

text \<open>
  The packages are not part of the sources; what the program calls of them is a parameter
  of the model. \<open>Parse\<close> is \<^verbatim>\<open>time.Parse(time.RFC3339, _)\<close>, \<open>Float64\<close> is
  \<^verbatim>\<open>json.Number.Float64\<close>; the statistics and \<open>DirectionStr\<close> are those of
  \<^verbatim>\<open>libwx\<close>, on unwrapped degrees; \<open>NewPoint_err\<close> is the error of
  \<^verbatim>\<open>influxdb.NewPoint\<close>, if any (the point it returns otherwise holds its four
  arguments), \<open>NewBatchPoints_err\<close> the error of \<^verbatim>\<open>influxdb.NewBatchPoints\<close>, and
  \<open>Error_text\<close> the \<^verbatim>\<open>Error()\<close> of the error \<^verbatim>\<open>retry.Do\<close> returns for the errors
  of the attempts.
\<close>

datatype DirectionStrPrecision = DirectionStrPrecision1 | DirectionStrPrecision2

type_synonym fields = "(string \<times> (real + string)) list"

record library =
  Parse :: "string \<Rightarrow> string + Time"
  Float64 :: "string \<Rightarrow> string + real"
  AvgDirectionDeg :: "real list \<Rightarrow> real"
  StdDevDeg :: "real list \<Rightarrow> real"
  WeightedAvgDirectionDeg :: "real list \<Rightarrow> real list \<Rightarrow> string + real"
  WeightedStdDevDirectionDeg :: "real list \<Rightarrow> real list \<Rightarrow> string + real"
  DirectionStr :: "real \<Rightarrow> DirectionStrPrecision \<Rightarrow> string"
  NewPoint_err :: "string \<Rightarrow> tags \<Rightarrow> fields \<Rightarrow> Time \<Rightarrow> string option"
  NewBatchPoints_err :: "string option"
  Error_text :: "string list \<Rightarrow> string"

definition Clamped :: "real \<Rightarrow> real" where
  \<comment> \<open>Modelled from the spec: \<^verbatim>\<open>libwx.Degree.Clamped\<close> is not under \<^verbatim>\<open>src/\<close>. The spec
     (sections 3 and 6) gives its contract: the degree clamp range-reduces a raw angle
     into \<open>[0, 360)\<close> and is idempotent.\<close>
  "Clamped d = d - 360 * of_int \<lfloor>d / 360\<rfloor>"

text \<open>
  The world a run meets: the reply of the store to each query (the transport error of
  \<^verbatim>\<open>Influx.Query\<close>, or the response), the error of the \<open>k\<close>-th call of
  \<^verbatim>\<open>Influx.Write\<close>, the clock at \<^verbatim>\<open>time.Since\<close> in the staleness check of each
  interval, and the clock at \<^verbatim>\<open>now := time.Now()\<close>.
\<close>

record Row =
  Columns :: "string list"
  Values :: "cell list list"

record Result =
  Series :: "Row list"

record Response =
  Results :: "Result list"
  Err :: string

record world =
  Query :: "string \<Rightarrow> string + Response"
  Write :: "nat \<Rightarrow> Point list \<Rightarrow> string option"
  Since_clock :: "string \<Rightarrow> Time"
  Now :: Time

text \<open>
  Modelled from the spec: \<^verbatim>\<open>retry.Do\<close> is not under \<^verbatim>\<open>src/\<close>; section 6 gives
  \<^verbatim>\<open>execute(fn, maxAttempts) \<rightarrow> error\<close>, retried synchronously. \<open>Do f attempts\<close> calls
  \<open>f 0\<close>, \<open>f 1\<close>, ... until a call succeeds or \<open>attempts\<close> calls have failed; it gives
  the number of calls made, and the errors of the calls when none succeeded.
\<close>

fun Do_from :: "(nat \<Rightarrow> string option) \<Rightarrow> nat \<Rightarrow> nat \<Rightarrow> string list \<Rightarrow> nat \<times> string list option" where
  \<comment> \<open>Modelled from the spec: the loop of \<^verbatim>\<open>retry.Do\<close>, after \<open>n\<close> calls, with the
     attempts left and the errors so far.\<close>
  "Do_from f n 0 errs = (n, Some errs)"
| "Do_from f n (Suc k) errs =
     (case f n of
        None \<Rightarrow> (Suc n, None)
      | Some e \<Rightarrow> Do_from f (Suc n) k (errs @ [e]))"

definition Do :: "(nat \<Rightarrow> string option) \<Rightarrow> nat \<Rightarrow> nat \<times> string list option" where
  \<comment> \<open>Modelled from the spec: \<^verbatim>\<open>retry.Do(f, retry.Attempts(attempts))\<close>.\<close>
  "Do f attempts = Do_from f 0 attempts []"

subsection \<open>The arguments and the interval tables\<close>

text \<open>
  The record has the fields of the three revisions of \<^verbatim>\<open>WindDirectionAggArgs\<close>: wd has
  \<open>Tags\<close> and \<open>InfluxWriteRetries\<close>, p1b adds \<open>WindSpeedField\<close>, p1a has
  \<open>WindSpeedField\<close>, \<open>QueryTags\<close> and \<open>WriteTags\<close>. The client is the \<open>world\<close>;
  the database, the retention policy and the timeout are handed on unchanged and are
  left out.
\<close>

record WindDirectionAggArgs =
  MeasurementFrom :: string
  MeasurementTo :: string
  WindDirectionField :: string
  WindSpeedField :: string
  Tags :: tags
  QueryTags :: tags
  WriteTags :: tags
  InfluxWriteRetries :: nat

definition wdInterval6h :: string where
  "wdInterval6h = ''6h''"

definition wdInterval3h :: string where
  "wdInterval3h = ''3h''"

definition wdInterval1h :: string where
  "wdInterval1h = ''1h''"

definition wdInterval30m :: string where
  "wdInterval30m = ''30m''"

definition wdInterval15m :: string where
  "wdInterval15m = ''15m''"

definition wdInterval5m :: string where
  "wdInterval5m = ''5m''"

definition allWindDirectionIntervals :: "string list" where
  "allWindDirectionIntervals =
     [wdInterval6h, wdInterval3h, wdInterval1h, wdInterval30m, wdInterval15m, wdInterval5m]"

definition windDirIntervalToDuration :: "string \<Rightarrow> Duration outcome" where
  "windDirIntervalToDuration interval =
     (if interval = wdInterval6h then Return (6 * Hour)
      else if interval = wdInterval3h then Return (3 * Hour)
      else if interval = wdInterval1h then Return Hour
      else if interval = wdInterval30m then Return (30 * Minute)
      else if interval = wdInterval15m then Return (15 * Minute)
      else if interval = wdInterval5m then Return (5 * Minute)
      else Panic (UnknownInterval interval))"

definition maxTimeBetweenAggsForWindDirInterval :: "string \<Rightarrow> Duration outcome" where
  \<comment> \<open>wd lines 67-84 and p1b lines 360-377\<close>
  "maxTimeBetweenAggsForWindDirInterval interval =
     (if interval = wdInterval6h then Return (1 * Hour)
      else if interval = wdInterval3h then Return (40 * Minute)
      else if interval = wdInterval1h then Return (20 * Minute)
      else if interval = wdInterval30m then Return (10 * Minute)
      else if interval = wdInterval15m then Return (5 * Minute)
      else if interval = wdInterval5m then Return (2 * Minute + 30 * Second)
      else Panic (UnknownInterval interval))"

definition maxTimeBetweenAggsForWindDirInterval_p1a :: "string \<Rightarrow> Duration outcome" where
  \<comment> \<open>p1a lines 66-83\<close>
  "maxTimeBetweenAggsForWindDirInterval_p1a interval =
     (if interval = wdInterval6h then Return (20 * Minute)
      else if interval = wdInterval3h then Return (10 * Minute)
      else if interval = wdInterval1h then Return (5 * Minute)
      else if interval = wdInterval30m then Return (2 * Minute + 30 * Second)
      else if interval = wdInterval15m then Return (2 * Minute + 30 * Second)
      else if interval = wdInterval5m then Return (1 * Minute)
      else Panic (UnknownInterval interval))"

definition stdDevThresholdsForWindDirIntervalCardinalResult_wd :: "string \<Rightarrow> (real \<times> real) outcome" where
  \<comment> \<open>wd lines 86-104: max SD for secondary intercardinal, max SD for primary intercardinal\<close>
  "stdDevThresholdsForWindDirIntervalCardinalResult_wd interval =
     (if interval = wdInterval6h then Return (30, 38)
      else if interval = wdInterval3h then Return (35, 40)
      else if interval = wdInterval1h then Return (38, 43)
      else if interval = wdInterval30m then Return (44, 50)
      else if interval = wdInterval15m then Return (50, 54)
      else if interval = wdInterval5m then Return (56, 60)
      else Panic (UnknownInterval interval))"

definition stdDevThresholdsForWindDirIntervalCardinalResult_p1b :: "string \<Rightarrow> (real \<times> real) outcome" where
  \<comment> \<open>p1b lines 379-397\<close>
  "stdDevThresholdsForWindDirIntervalCardinalResult_p1b interval =
     (if interval = wdInterval6h then Return (30, 38)
      else if interval = wdInterval3h then Return (35, 40)
      else if interval = wdInterval1h then Return (38, 43)
      else if interval = wdInterval30m then Return (42, 45)
      else if interval = wdInterval15m then Return (43.5, 46)
      else if interval = wdInterval5m then Return (45, 46.5)
      else Panic (UnknownInterval interval))"

definition varThresholdForWindDirInterval :: "string \<Rightarrow> real" where
  \<comment> \<open>p1a lines 85-99\<close>
  "varThresholdForWindDirInterval interval =
     (let th = 50.0 in
      if interval = wdInterval6h then 60
      else if interval = wdInterval3h then 55
      else if interval = wdInterval1h then 52
      else if interval = wdInterval30m then 51.5
      else if interval = wdInterval15m then 51
      else th)"

definition wdMeanResultFieldName :: "WindDirectionAggArgs \<Rightarrow> string \<Rightarrow> string" where
  "wdMeanResultFieldName args interval = WindDirectionField args @ ''_mean_'' @ interval"

definition wdStdDevResultFieldName :: "WindDirectionAggArgs \<Rightarrow> string \<Rightarrow> string" where
  "wdStdDevResultFieldName args interval = WindDirectionField args @ ''_stddev_'' @ interval"

definition wdMeanIntercardinalResultFieldName :: "WindDirectionAggArgs \<Rightarrow> string \<Rightarrow> string" where
  "wdMeanIntercardinalResultFieldName args interval =
     WindDirectionField args @ ''_mean_intercardinal_'' @ interval"

subsection \<open>Which intervals are due\<close>

definition staleness_query :: "WindDirectionAggArgs \<Rightarrow> string \<Rightarrow> string \<Rightarrow> string" where
  "staleness_query args interval tagsWhere =
     ''SELECT time, '' @ wdMeanResultFieldName args interval @ '' FROM '' @ MeasurementTo args
     @ '' WHERE time >= now()-'' @ interval @ '' '' @ tagsWhere
     @ '' ORDER BY time DESC LIMIT 1''"

text \<open>
  The time the staleness check measures from (the argument of \<^verbatim>\<open>time.Since\<close>) and the
  time a point is stamped with (the last argument of \<^verbatim>\<open>influxdb.NewPoint\<close>): wd lines
  161 and 259; p1a lines 177 and 283, p1b lines 475 and 596. Go's \<^verbatim>\<open>/\<close> on integers
  truncates (\<open>sdiv\<close>), and \<^verbatim>\<open>-1*d/2\<close> is \<^verbatim>\<open>(-1*d)/2\<close>.
\<close>

definition staleness_reference_wd :: "string \<Rightarrow> Time \<Rightarrow> Time outcome" where
  "staleness_reference_wd interval t = Return t"

definition point_time_wd :: "Time \<Rightarrow> Time" where
  "point_time_wd now = now"

definition staleness_reference_p1 :: "string \<Rightarrow> Time \<Rightarrow> Time outcome" where
  "staleness_reference_p1 interval t =
     bind (windDirIntervalToDuration interval) (\<lambda>d. Return (Add t (d sdiv 2)))"

definition point_time_p1 :: "Time \<Rightarrow> string \<Rightarrow> Time outcome" where
  "point_time_p1 now interval =
     bind (windDirIntervalToDuration interval) (\<lambda>d. Return (Add now ((-1 * d) sdiv 2)))"

definition due_wd :: "world \<Rightarrow> string \<Rightarrow> Time \<Rightarrow> bool outcome" where
  \<comment> \<open>wd line 161: \<^verbatim>\<open>time.Since(t) > maxTimeBetweenAggsForWindDirInterval(interval)\<close>\<close>
  "due_wd W interval t =
     bind (staleness_reference_wd interval t) (\<lambda>ref.
     bind (maxTimeBetweenAggsForWindDirInterval interval) (\<lambda>m.
     Return (Sub (Since_clock W interval) ref > m)))"

definition due_p1b :: "world \<Rightarrow> string \<Rightarrow> Time \<Rightarrow> bool outcome" where
  \<comment> \<open>p1b line 475: \<^verbatim>\<open>time.Since(t.Add(windDirIntervalToDuration(interval)/2)) > max...\<close>\<close>
  "due_p1b W interval t =
     bind (staleness_reference_p1 interval t) (\<lambda>ref.
     bind (maxTimeBetweenAggsForWindDirInterval interval) (\<lambda>m.
     Return (Sub (Since_clock W interval) ref > m)))"

definition due_p1a :: "world \<Rightarrow> string \<Rightarrow> Time \<Rightarrow> bool outcome" where
  \<comment> \<open>p1a line 177, with the table of p1a\<close>
  "due_p1a W interval t =
     bind (staleness_reference_p1 interval t) (\<lambda>ref.
     bind (maxTimeBetweenAggsForWindDirInterval_p1a interval) (\<lambda>m.
     Return (Sub (Since_clock W interval) ref > m)))"

text \<open>
  The body of the first loop after the query (wd lines 135-163, p1a lines 151-179, p1b
  lines 449-477) is the same text in the three revisions up to the last \<^verbatim>\<open>if\<close>, which
  is the parameter \<open>due\<close>. \<open>Return True\<close>: the interval is appended to
  \<^verbatim>\<open>intervalsTodo\<close>.
\<close>

definition staleness_check :: "library \<Rightarrow> (Time \<Rightarrow> bool outcome) \<Rightarrow> string + Response \<Rightarrow> bool outcome" where
  "staleness_check L due reply =
     (case reply of
        Inl err \<Rightarrow> Fail (QueryFailed err)
      | Inr r \<Rightarrow>
          if Err r \<noteq> [] then Fail (QueryFailed (Err r))
          else if length (Results r) = 0 \<or> length (Series (Results r ! 0)) = 0 then Return True
          else if length (Results r) > 1 then Fail (ExpectedOneResult (length (Results r)))
          else if length (Series (Results r ! 0)) > 1
            then Fail (ExpectedOneSeries (length (Series (Results r ! 0))))
          else
            bind (index (Columns (Series (Results r ! 0) ! 0)) 0) (\<lambda>c0.
            if c0 \<noteq> ''time'' then Fail (FirstColumnNotTime c0)
            else
              bind (index (Values (Series (Results r ! 0) ! 0)) 0) (\<lambda>v0.
              bind (index v0 0) (\<lambda>x.
              bind (assert_string x) (\<lambda>s.
              case Parse L s of
                Inl err \<Rightarrow> Fail (ParseTimeFailed err)
              | Inr t \<Rightarrow> due t)))))"

definition staleness_step :: "library \<Rightarrow> world \<Rightarrow> WindDirectionAggArgs \<Rightarrow> string \<Rightarrow>
    (string \<Rightarrow> Time \<Rightarrow> bool outcome) \<Rightarrow> string \<Rightarrow> bool run" where
  "staleness_step L W args tagsWhere due interval =
     (let q = staleness_query args interval tagsWhere in
      ([Logged (''[DEBUG] query: '' @ q), Queried q],
       staleness_check L (due interval) (Query W q)))"

fun intervalsTodo_loop :: "(string \<Rightarrow> bool run) \<Rightarrow> string list \<Rightarrow> string list \<Rightarrow> string list run" where
  "intervalsTodo_loop step [] intervalsTodo = ([], Return intervalsTodo)"
| "intervalsTodo_loop step (interval # rest) intervalsTodo =
     andThen (step interval) (\<lambda>due.
       intervalsTodo_loop step rest
         (if due then intervalsTodo @ [interval] else intervalsTodo))"

definition intervalsTodo_wd :: "library \<Rightarrow> world \<Rightarrow> WindDirectionAggArgs \<Rightarrow> string list run" where
  "intervalsTodo_wd L W args =
     intervalsTodo_loop
       (staleness_step L W args (PartialWhereClauseForTags (Tags args)) (due_wd W))
       allWindDirectionIntervals []"

definition intervalsTodo_p1b :: "library \<Rightarrow> world \<Rightarrow> WindDirectionAggArgs \<Rightarrow> string list run" where
  "intervalsTodo_p1b L W args =
     intervalsTodo_loop
       (staleness_step L W args (PartialWhereClauseForTags (Tags args)) (due_p1b W))
       allWindDirectionIntervals []"

definition intervalsTodo_p1a :: "library \<Rightarrow> world \<Rightarrow> WindDirectionAggArgs \<Rightarrow> string list run" where
  "intervalsTodo_p1a L W args =
     intervalsTodo_loop
       (staleness_step L W args (PartialWhereClauseForTags (QueryTags args)) (due_p1a W))
       allWindDirectionIntervals []"

subsection \<open>Fetching the samples\<close>

definition bulk_query_wd :: "WindDirectionAggArgs \<Rightarrow> string \<Rightarrow> string \<Rightarrow> string" where
  \<comment> \<open>wd line 174; \<open>first\<close> is \<^verbatim>\<open>intervalsTodo[0]\<close>\<close>
  "bulk_query_wd args first tagsWhere =
     ''SELECT time, '' @ WindDirectionField args @ '' FROM '' @ MeasurementFrom args
     @ '' WHERE time >= now()-'' @ first @ '' '' @ tagsWhere @ '' ORDER BY time ASC''"

definition bulk_query_p1 :: "WindDirectionAggArgs \<Rightarrow> string \<Rightarrow> string \<Rightarrow> string" where
  \<comment> \<open>p1a lines 190-191, p1b lines 488-489\<close>
  "bulk_query_p1 args first tagsWhere =
     ''SELECT time, '' @ WindDirectionField args @ '', '' @ WindSpeedField args
     @ '' FROM '' @ MeasurementFrom args
     @ '' WHERE time >= now()-'' @ first @ '' '' @ tagsWhere @ '' ORDER BY time ASC''"

text \<open>
  The checks of the reply: \<open>Return None\<close> is the branch that logs
  \<^verbatim>\<open>no data to aggregate\<close>, \<open>Return (Some series)\<close> hands on
  \<^verbatim>\<open>r.Results[0].Series[0]\<close>.
\<close>

definition bulk_check_wd :: "WindDirectionAggArgs \<Rightarrow> string + Response \<Rightarrow> Row option outcome" where
  \<comment> \<open>wd lines 181-203\<close>
  "bulk_check_wd args reply =
     (case reply of
        Inl err \<Rightarrow> Fail (QueryFailed err)
      | Inr r \<Rightarrow>
          if Err r \<noteq> [] then Fail (QueryFailed (Err r))
          else if length (Results r) = 0 \<or> length (Series (Results r ! 0)) = 0 then Return None
          else if length (Results r) > 1 then Fail (ExpectedOneResult (length (Results r)))
          else if length (Series (Results r ! 0)) > 1
            then Fail (ExpectedOneSeries (length (Series (Results r ! 0))))
          else
            bind (index (Columns (Series (Results r ! 0) ! 0)) 0) (\<lambda>c0.
            if c0 \<noteq> ''time'' then Fail (FirstColumnNotTime c0)
            else
              bind (index (Columns (Series (Results r ! 0) ! 0)) 1) (\<lambda>c1.
              if c1 \<noteq> WindDirectionField args
                then Fail (SecondColumnNot (WindDirectionField args) c1)
              else Return (Some (Series (Results r ! 0) ! 0)))))"

definition bulk_check_p1 :: "WindDirectionAggArgs \<Rightarrow> string + Response \<Rightarrow> Row option outcome" where
  \<comment> \<open>p1a lines 198-223, p1b lines 496-521\<close>
  "bulk_check_p1 args reply =
     (case reply of
        Inl err \<Rightarrow> Fail (QueryFailed err)
      | Inr r \<Rightarrow>
          if Err r \<noteq> [] then Fail (QueryFailed (Err r))
          else if length (Results r) = 0 \<or> length (Series (Results r ! 0)) = 0 then Return None
          else if length (Results r) > 1 then Fail (ExpectedOneResult (length (Results r)))
          else if length (Series (Results r ! 0)) > 1
            then Fail (ExpectedOneSeries (length (Series (Results r ! 0))))
          else
            bind (index (Columns (Series (Results r ! 0) ! 0)) 0) (\<lambda>c0.
            if c0 \<noteq> ''time'' then Fail (FirstColumnNotTime c0)
            else
              bind (index (Columns (Series (Results r ! 0) ! 0)) 1) (\<lambda>c1.
              if c1 \<noteq> WindDirectionField args
                then Fail (SecondColumnNot (WindDirectionField args) c1)
              else
                bind (index (Columns (Series (Results r ! 0) ! 0)) 2) (\<lambda>c2.
                if c2 \<noteq> WindSpeedField args
                  then Fail (ThirdColumnNot (WindSpeedField args) c2)
                else Return (Some (Series (Results r ! 0) ! 0))))))"

subsection \<open>The buckets\<close>

text \<open>
  \<^verbatim>\<open>intervalData\<close> is only read and written at a key, and a Go map gives the zero value
  (a slice of length 0) at a key it does not hold: it is a function from the interval to
  its slice, \<open>\<lambda>_. []\<close> after the loop that stores an empty slice for each due interval.
  \<open>admit\<close> is the inner loop over \<^verbatim>\<open>intervalsTodo\<close> for one row (wd lines 222-226,
  p1a lines 249-253, p1b lines 547-551).
\<close>

fun admit :: "Time \<Rightarrow> Time \<Rightarrow> 'a \<Rightarrow> string list \<Rightarrow> (string \<Rightarrow> 'a list) \<Rightarrow> (string \<Rightarrow> 'a list) outcome" where
  "admit now t x [] intervalData = Return intervalData"
| "admit now t x (interval # rest) intervalData =
     bind (windDirIntervalToDuration interval) (\<lambda>d.
     admit now t x rest
       (if Sub now t \<le> d
        then intervalData(interval := intervalData interval @ [x])
        else intervalData))"

definition parse_row_wd :: "library \<Rightarrow> cell list \<Rightarrow> (Time \<times> real) outcome" where
  \<comment> \<open>wd lines 213-220: the time and the raw angle of a row\<close>
  "parse_row_wd L datapoint =
     bind (index datapoint 0) (\<lambda>x0.
     bind (assert_string x0) (\<lambda>s.
     case Parse L s of
       Inl err \<Rightarrow> Fail (ParseTimeFailed err)
     | Inr t \<Rightarrow>
         bind (index datapoint 1) (\<lambda>x1.
         bind (assert_Number x1) (\<lambda>n.
         case Float64 L n of
           Inl err \<Rightarrow> Fail (ParseWindDirectionFailed err)
         | Inr wd \<Rightarrow> Return (t, wd)))))"

fun buckets_wd :: "library \<Rightarrow> Time \<Rightarrow> string list \<Rightarrow> cell list list \<Rightarrow> (string \<Rightarrow> real list) \<Rightarrow>
    (string \<Rightarrow> real list) outcome" where
  "buckets_wd L now intervalsTodo [] intervalData = Return intervalData"
| "buckets_wd L now intervalsTodo (datapoint # rest) intervalData =
     bind (parse_row_wd L datapoint) (\<lambda>(t, wd).
     bind (admit now t (Clamped wd) intervalsTodo intervalData) (\<lambda>intervalData'.
     buckets_wd L now intervalsTodo rest intervalData'))"

record wdDataPoint =
  dir :: real
  spd :: real

definition dirSeries :: "wdDataPoint list \<Rightarrow> real list" where
  "dirSeries data = map dir data"

definition spdSeries :: "wdDataPoint list \<Rightarrow> real list" where
  "spdSeries data = map spd data"

definition parse_row_p1 :: "library \<Rightarrow> cell list \<Rightarrow> (Time \<times> real \<times> wdDataPoint) outcome" where
  \<comment> \<open>p1a lines 233-248, p1b lines 531-546: the time, the raw angle and the data point\<close>
  "parse_row_p1 L sourceDataPoint =
     bind (index sourceDataPoint 1) (\<lambda>x1.
     bind (assert_Number x1) (\<lambda>n1.
     case Float64 L n1 of
       Inl err \<Rightarrow> Fail (ParseWindDirectionFailed err)
     | Inr d \<Rightarrow>
         bind (index sourceDataPoint 2) (\<lambda>x2.
         bind (assert_Number x2) (\<lambda>n2.
         case Float64 L n2 of
           Inl err \<Rightarrow> Fail (ParseWindSpeedFailed err)
         | Inr s \<Rightarrow>
             bind (index sourceDataPoint 0) (\<lambda>x0.
             bind (assert_string x0) (\<lambda>ts.
             case Parse L ts of
               Inl err \<Rightarrow> Fail (ParseTimeFailed err)
             | Inr t \<Rightarrow> Return (t, d, \<lparr>dir = Clamped d, spd = s\<rparr>)))))))"

fun buckets_p1 :: "library \<Rightarrow> Time \<Rightarrow> string list \<Rightarrow> cell list list \<Rightarrow> (string \<Rightarrow> wdDataPoint list) \<Rightarrow>
    (string \<Rightarrow> wdDataPoint list) outcome" where
  "buckets_p1 L now intervalsTodo [] intervalData = Return intervalData"
| "buckets_p1 L now intervalsTodo (sourceDataPoint # rest) intervalData =
     bind (parse_row_p1 L sourceDataPoint) (\<lambda>(t, d, dp).
     bind (admit now t dp intervalsTodo intervalData) (\<lambda>intervalData'.
     buckets_p1 L now intervalsTodo rest intervalData'))"

subsection \<open>Mean, standard deviation and label\<close>

definition cardinal_wd :: "library \<Rightarrow> string \<Rightarrow> real \<Rightarrow> real \<Rightarrow> string outcome" where
  \<comment> \<open>wd lines 236-244\<close>
  "cardinal_wd L interval mean stdDev =
     bind (stdDevThresholdsForWindDirIntervalCardinalResult_wd interval) (\<lambda>(maxSecInt, maxInt).
     Return (if stdDev > maxInt then ''VAR''
             else if stdDev > maxSecInt then DirectionStr L mean DirectionStrPrecision1
             else DirectionStr L mean DirectionStrPrecision2))"

definition cardinal_p1b :: "library \<Rightarrow> string \<Rightarrow> real \<Rightarrow> real \<Rightarrow> string outcome" where
  \<comment> \<open>p1b lines 579-587\<close>
  "cardinal_p1b L interval mean stdDev =
     bind (stdDevThresholdsForWindDirIntervalCardinalResult_p1b interval) (\<lambda>(maxSecInt, maxInt).
     Return (if stdDev > maxInt then ''VAR''
             else if stdDev > maxSecInt then DirectionStr L mean DirectionStrPrecision1
             else DirectionStr L mean DirectionStrPrecision2))"

definition cardinal_p1a :: "library \<Rightarrow> string \<Rightarrow> real \<Rightarrow> real \<Rightarrow> string" where
  \<comment> \<open>p1a lines 271-274\<close>
  "cardinal_p1a L interval mean stdDev =
     (if stdDev < varThresholdForWindDirInterval interval
      then DirectionStr L mean DirectionStrPrecision2
      else ''VAR'')"

definition set_fields :: "WindDirectionAggArgs \<Rightarrow> string \<Rightarrow> real \<Rightarrow> real \<Rightarrow> string \<Rightarrow> fields \<Rightarrow> fields" where
  \<comment> \<open>the three assignments to \<^verbatim>\<open>fields\<close> (wd lines 245-247, p1a 275-277, p1b 588-590)\<close>
  "set_fields args interval mean stdDev cardinal flds =
     AList.update (wdMeanIntercardinalResultFieldName args interval) (Inr cardinal)
       (AList.update (wdStdDevResultFieldName args interval) (Inl stdDev)
         (AList.update (wdMeanResultFieldName args interval) (Inl mean) flds))"

definition aggregate_wd :: "library \<Rightarrow> WindDirectionAggArgs \<Rightarrow> (string \<Rightarrow> real list) \<Rightarrow> string \<Rightarrow>
    fields \<Rightarrow> fields outcome" where
  \<comment> \<open>the body of the loop at wd lines 230-248\<close>
  "aggregate_wd L args intervalData interval flds =
     (if length (intervalData interval) = 0 then Return flds
      else
        let mean = AvgDirectionDeg L (intervalData interval);
            stdDev = StdDevDeg L (intervalData interval)
        in bind (cardinal_wd L interval mean stdDev) (\<lambda>cardinal.
           Return (set_fields args interval mean stdDev cardinal flds)))"

fun over_intervals :: "(string \<Rightarrow> 'a \<Rightarrow> 'a outcome) \<Rightarrow> string list \<Rightarrow> 'a \<Rightarrow> 'a outcome" where
  \<comment> \<open>\<^verbatim>\<open>for _, interval := range intervalsTodo { body }\<close>, the body updating \<open>acc\<close>\<close>
  "over_intervals body [] acc = Return acc"
| "over_intervals body (interval # rest) acc =
     bind (body interval acc) (\<lambda>acc'. over_intervals body rest acc')"

definition point_wd :: "library \<Rightarrow> string \<Rightarrow> WindDirectionAggArgs \<Rightarrow> Time \<Rightarrow> fields \<Rightarrow> Point list outcome" where
  \<comment> \<open>wd lines 250-271: the batch, holding the one point of the run\<close>
  "point_wd L Version args now flds =
     (let tags = write_tags Version (Tags args) in
      case NewPoint_err L (MeasurementTo args) tags flds (point_time_wd now) of
        Some err \<Rightarrow> Fail (CreatePointFailed err)
      | None \<Rightarrow>
          (case NewBatchPoints_err L of
             Some err \<Rightarrow> Fail (CreateBatchFailed err)
           | None \<Rightarrow>
               Return [\<lparr>name = MeasurementTo args, point_tags = tags, point_fields = flds,
                        timestamp = point_time_wd now\<rparr>]))"

definition aggregate_p1b :: "library \<Rightarrow> WindDirectionAggArgs \<Rightarrow> tags \<Rightarrow> Time \<Rightarrow>
    (string \<Rightarrow> wdDataPoint list) \<Rightarrow> string \<Rightarrow> Point list \<Rightarrow> Point list outcome" where
  \<comment> \<open>the body of the loop at p1b lines 566-602\<close>
  "aggregate_p1b L args tags now intervalData interval bp =
     (if length (intervalData interval) = 0 then Return bp
      else
        case WeightedAvgDirectionDeg L (dirSeries (intervalData interval))
               (spdSeries (intervalData interval)) of
          Inl err \<Rightarrow> Fail (WeightedAvgFailed err)
        | Inr mean \<Rightarrow>
            (case WeightedStdDevDirectionDeg L (dirSeries (intervalData interval))
                    (spdSeries (intervalData interval)) of
               Inl err \<Rightarrow> Fail (WeightedStdDevFailed err)
             | Inr stdDev \<Rightarrow>
                 bind (cardinal_p1b L interval mean stdDev) (\<lambda>cardinal.
                 let flds = set_fields args interval mean stdDev cardinal [] in
                 bind (point_time_p1 now interval) (\<lambda>ts.
                 case NewPoint_err L (MeasurementTo args) tags flds ts of
                   Some err \<Rightarrow> Fail (CreatePointFailed err)
                 | None \<Rightarrow>
                     Return (bp @ [\<lparr>name = MeasurementTo args, point_tags = tags,
                                     point_fields = flds, timestamp = ts\<rparr>])))))"

definition aggregate_p1a :: "library \<Rightarrow> WindDirectionAggArgs \<Rightarrow> Time \<Rightarrow>
    (string \<Rightarrow> wdDataPoint list) \<Rightarrow> string \<Rightarrow> Point list \<Rightarrow> Point list outcome" where
  \<comment> \<open>the body of the loop at p1a lines 258-289\<close>
  "aggregate_p1a L args now intervalData interval retv =
     (if length (intervalData interval) = 0 then Return retv
      else
        case WeightedAvgDirectionDeg L (dirSeries (intervalData interval))
               (spdSeries (intervalData interval)) of
          Inl err \<Rightarrow> Fail (WeightedAvgFailed err)
        | Inr mean \<Rightarrow>
            (case WeightedStdDevDirectionDeg L (dirSeries (intervalData interval))
                    (spdSeries (intervalData interval)) of
               Inl err \<Rightarrow> Fail (WeightedStdDevFailed err)
             | Inr stdDev \<Rightarrow>
                 let flds = set_fields args interval mean stdDev
                                (cardinal_p1a L interval mean stdDev) [] in
                 bind (point_time_p1 now interval) (\<lambda>ts.
                 case NewPoint_err L (MeasurementTo args) (WriteTags args) flds ts of
                   Some err \<Rightarrow> Fail (CreatePointFailed err)
                 | None \<Rightarrow>
                     Return (retv @ [\<lparr>name = MeasurementTo args, point_tags = WriteTags args,
                                       point_fields = flds, timestamp = ts\<rparr>]))))"

subsection \<open>Writing, and the whole run\<close>

definition write_batch :: "library \<Rightarrow> world \<Rightarrow> nat \<Rightarrow> Point list \<Rightarrow> event list" where
  \<comment> \<open>\<^verbatim>\<open>if err := retry.Do(func() error { return Influx.Write(bp) }, retry.Attempts(n));
     err != nil { log.Printf("failed to write to Influx: %s", err.Error()) }\<close>
     (wd lines 273-280, p1b lines 604-611, \<^verbatim>\<open>src/main.go\<close> lines 113-120)\<close>
  "write_batch L W attempts bp =
     (case Do (\<lambda>k. Write W k bp) attempts of
        (calls, None) \<Rightarrow> replicate calls (Wrote bp)
      | (calls, Some errs) \<Rightarrow>
          replicate calls (Wrote bp)
          @ [Logged (''failed to write to Influx: '' @ Error_text L errs)])"

text \<open>
  \<open>prepare\<close> is \<^verbatim>\<open>WindDirectionAgg\<close> up to the write: \<open>Return None\<close> is one of the two
  early \<^verbatim>\<open>return nil\<close>, \<open>Return (Some bp)\<close> reaches the write with the batch \<open>bp\<close>.
\<close>

definition prepare_wd :: "library \<Rightarrow> world \<Rightarrow> string \<Rightarrow> WindDirectionAggArgs \<Rightarrow> Point list option run" where
  "prepare_wd L W Version args =
     andThen (intervalsTodo_wd L W args) (\<lambda>intervalsTodo.
       case intervalsTodo of
         [] \<Rightarrow> ([Logged ''no intervals to calculate''], Return None)
       | first # _ \<Rightarrow>
           (let now = Now W;
                q = bulk_query_wd args first (PartialWhereClauseForTags (Tags args))
            in andThen ([Logged (''[DEBUG] query: '' @ q), Queried q],
                        bulk_check_wd args (Query W q)) (\<lambda>series.
                 case series of
                   None \<Rightarrow> ([Logged ''no data to aggregate''], Return None)
                 | Some row \<Rightarrow>
                     ([], bind (buckets_wd L now intervalsTodo (Values row) (\<lambda>_. [])) (\<lambda>intervalData.
                          bind (over_intervals (aggregate_wd L args intervalData) intervalsTodo []) (\<lambda>flds.
                          bind (point_wd L Version args now flds) (\<lambda>bp.
                          Return (Some bp))))))))"

definition WindDirectionAgg_wd :: "library \<Rightarrow> world \<Rightarrow> string \<Rightarrow> WindDirectionAggArgs \<Rightarrow> unit run" where
  "WindDirectionAgg_wd L W Version args =
     andThen (prepare_wd L W Version args) (\<lambda>r.
       case r of
         None \<Rightarrow> ([], Return ())
       | Some bp \<Rightarrow> (write_batch L W (InfluxWriteRetries args) bp, Return ()))"

definition prepare_p1b :: "library \<Rightarrow> world \<Rightarrow> string \<Rightarrow> WindDirectionAggArgs \<Rightarrow> Point list option run" where
  "prepare_p1b L W Version args =
     andThen (intervalsTodo_p1b L W args) (\<lambda>intervalsTodo.
       case intervalsTodo of
         [] \<Rightarrow> ([Logged ''no intervals to calculate''], Return None)
       | first # _ \<Rightarrow>
           (let now = Now W;
                q = bulk_query_p1 args first (PartialWhereClauseForTags (Tags args))
            in andThen ([Logged (''[DEBUG] query: '' @ q), Queried q],
                        bulk_check_p1 args (Query W q)) (\<lambda>series.
                 case series of
                   None \<Rightarrow> ([Logged ''no data to aggregate''], Return None)
                 | Some row \<Rightarrow>
                     ([], bind (buckets_p1 L now intervalsTodo (Values row) (\<lambda>_. [])) (\<lambda>intervalData.
                          case NewBatchPoints_err L of
                            Some err \<Rightarrow> Fail (CreateBatchFailed err)
                          | None \<Rightarrow>
                              (let tags = write_tags Version (Tags args) in
                               bind (over_intervals (aggregate_p1b L args tags now intervalData)
                                       intervalsTodo []) (\<lambda>bp.
                               Return (Some bp))))))))"

definition WindDirectionAgg_p1b :: "library \<Rightarrow> world \<Rightarrow> string \<Rightarrow> WindDirectionAggArgs \<Rightarrow> unit run" where
  "WindDirectionAgg_p1b L W Version args =
     andThen (prepare_p1b L W Version args) (\<lambda>r.
       case r of
         None \<Rightarrow> ([], Return ())
       | Some bp \<Rightarrow> (write_batch L W (InfluxWriteRetries args) bp, Return ()))"

definition WindDirectionAgg_p1a :: "library \<Rightarrow> world \<Rightarrow> WindDirectionAggArgs \<Rightarrow> Point list run" where
  \<comment> \<open>the result is the slice \<^verbatim>\<open>retv\<close>; \<^verbatim>\<open>nil\<close> is \<open>[]\<close>. The query is not logged
     here (p1a line 192 is a comment).\<close>
  "WindDirectionAgg_p1a L W args =
     andThen (intervalsTodo_p1a L W args) (\<lambda>intervalsTodo.
       case intervalsTodo of
         [] \<Rightarrow> ([Logged ''no intervals to calculate''], Return [])
       | first # _ \<Rightarrow>
           (let now = Now W;
                q = bulk_query_p1 args first (PartialWhereClauseForTags (QueryTags args))
            in andThen ([Queried q], bulk_check_p1 args (Query W q)) (\<lambda>series.
                 case series of
                   None \<Rightarrow> ([Logged ''no data to aggregate''], Return [])
                 | Some row \<Rightarrow>
                     ([], bind (buckets_p1 L now intervalsTodo (Values row) (\<lambda>_. [])) (\<lambda>intervalData.
                          over_intervals (aggregate_p1a L args now intervalData) intervalsTodo [])))))"

subsection \<open>\<^verbatim>\<open>main\<close>\<close>

text \<open>
  The two \<^verbatim>\<open>main\<close> functions from the parsing of the tags on; the \<^verbatim>\<open>-version\<close> and
  \<^verbatim>\<open>-env\<close> flags and the health check come before and are left out. A \<^verbatim>\<open>log.Fatalf\<close>
  ends the process with a failure status, a panic crashes it, and returning from
  \<^verbatim>\<open>main\<close> is the success status.
\<close>

record flags =
  measurement :: string
  tagsIn :: string
  windDirectionField :: string
  windSpeedField :: string

datatype exit =
    ExitSuccess
  | FatalParseTags string
  | FatalSpeedFieldRequired
  | FatalAggregation error
  | FatalBatch string
  | Crash panic

definition influxWriteRetries :: nat where
  "influxWriteRetries = 2"

definition main_p2 :: "library \<Rightarrow> world \<Rightarrow> string \<Rightarrow> flags \<Rightarrow> event list \<times> exit" where
  \<comment> \<open>\<^verbatim>\<open>src/unnamed/part_002\<close> lines 62-81, calling the \<^verbatim>\<open>WindDirectionAgg\<close> of wd\<close>
  "main_p2 L W Version fl =
     (case ParseTags (tagsIn fl) of
        Inl tag \<Rightarrow> ([], FatalParseTags tag)
      | Inr tags \<Rightarrow>
          if windDirectionField fl \<noteq> [] then
            (case WindDirectionAgg_wd L W Version
                    \<lparr>MeasurementFrom = measurement fl,
                     MeasurementTo = measurement fl @ ''_agg'',
                     WindDirectionField = windDirectionField fl,
                     WindSpeedField = [],
                     Tags = tags, QueryTags = [], WriteTags = [],
                     InfluxWriteRetries = influxWriteRetries\<rparr> of
               (tr, Return _) \<Rightarrow> (tr, ExitSuccess)
             | (tr, Fail err) \<Rightarrow> (tr, FatalAggregation err)
             | (tr, Panic p) \<Rightarrow> (tr, Crash p))
          else ([], ExitSuccess))"

definition main_write :: "library \<Rightarrow> world \<Rightarrow> Point list \<Rightarrow> event list \<times> exit" where
  \<comment> \<open>\<^verbatim>\<open>src/main.go\<close> lines 98-120\<close>
  "main_write L W points =
     (if length points = 0 then ([Logged ''no data to write''], ExitSuccess)
      else
        case NewBatchPoints_err L of
          Some err \<Rightarrow> ([], FatalBatch err)
        | None \<Rightarrow> (write_batch L W influxWriteRetries points, ExitSuccess))"

definition main_go :: "library \<Rightarrow> world \<Rightarrow> string \<Rightarrow> flags \<Rightarrow> event list \<times> exit" where
  \<comment> \<open>\<^verbatim>\<open>src/main.go\<close> lines 60-120, calling the \<^verbatim>\<open>WindDirectionAgg\<close> of p1a\<close>
  "main_go L W Version fl =
     (case ParseTags (tagsIn fl) of
        Inl tag \<Rightarrow> ([], FatalParseTags tag)
      | Inr qTags \<Rightarrow>
          (let wTags = write_tags Version qTags in
           if windDirectionField fl \<noteq> [] \<and> windSpeedField fl = [] then ([], FatalSpeedFieldRequired)
           else if windDirectionField fl \<noteq> [] then
             (case WindDirectionAgg_p1a L W
                     \<lparr>MeasurementFrom = measurement fl,
                      MeasurementTo = measurement fl @ ''_agg'',
                      WindDirectionField = windDirectionField fl,
                      WindSpeedField = windSpeedField fl,
                      Tags = [], QueryTags = qTags, WriteTags = wTags,
                      InfluxWriteRetries = 0\<rparr> of
                (tr, Return wdPoints) \<Rightarrow>
                  (case main_write L W wdPoints of (tr', e) \<Rightarrow> (tr @ tr', e))
              | (tr, Fail err) \<Rightarrow> (tr, FatalAggregation err)
              | (tr, Panic p) \<Rightarrow> (tr, Crash p))
           else main_write L W []))"

subsection \<open>A library and worlds for examples\<close>

text \<open>
  \<open>T0\<close> is 2025-01-13T12:00:00Z. The example library parses the timestamps and
  numbers the examples use; its statistics are fixed (mean 110, standard deviation 40),
  \<open>DirectionStr\<close> gives the two compass strings of 110 degrees, and \<open>NewPoint_err\<close>
  refuses a point without fields, as the client of the store does.
\<close>

definition T0 :: Time where
  "T0 = 1736769600 * Second"

definition example_library :: library where
  "example_library =
     \<lparr>Parse = (\<lambda>s.
        if s = ''2025-01-13T12:00:00Z'' then Inr T0
        else if s = ''2025-01-13T11:59:00Z'' then Inr (T0 - 1 * Minute)
        else if s = ''2025-01-13T11:57:00Z'' then Inr (T0 - 3 * Minute)
        else if s = ''2025-01-13T11:56:30Z'' then Inr (T0 - 3 * Minute - 30 * Second)
        else if s = ''2025-01-13T11:54:30Z'' then Inr (T0 - 5 * Minute - 30 * Second)
        else if s = ''2025-01-13T11:54:59Z'' then Inr (T0 - 5 * Minute - 1 * Second)
        else if s = ''2025-01-13T11:50:00Z'' then Inr (T0 - 10 * Minute)
        else Inl ''cannot parse''),
      Float64 = (\<lambda>n.
        if n = ''0'' then Inr 0
        else if n = ''5'' then Inr 5
        else if n = ''10'' then Inr 10
        else if n = ''350'' then Inr 350
        else if n = ''370'' then Inr 370
        else Inl ''invalid syntax''),
      AvgDirectionDeg = (\<lambda>xs. 110),
      StdDevDeg = (\<lambda>xs. 40),
      WeightedAvgDirectionDeg = (\<lambda>xs ws. Inr 110),
      WeightedStdDevDirectionDeg = (\<lambda>xs ws. Inr 40),
      DirectionStr = (\<lambda>d p. case p of DirectionStrPrecision1 \<Rightarrow> ''E'' | DirectionStrPrecision2 \<Rightarrow> ''ESE''),
      NewPoint_err = (\<lambda>n tg f ts. if f = [] then Some ''point without fields is unsupported'' else None),
      NewBatchPoints_err = None,
      Error_text = (\<lambda>errs. Join errs ''; '')\<rparr>"

definition example_args :: WindDirectionAggArgs where
  "example_args =
     \<lparr>MeasurementFrom = ''wx'', MeasurementTo = ''wx_agg'',
      WindDirectionField = ''wd'', WindSpeedField = ''ws'',
      Tags = [(''sta'', ''roof'')], QueryTags = [(''sta'', ''roof'')],
      WriteTags = write_tags ''1.0'' [(''sta'', ''roof'')],
      InfluxWriteRetries = 2\<rparr>"

definition no_point :: Response where
  "no_point = \<lparr>Results = [\<lparr>Series = []\<rparr>], Err = []\<rparr>"

definition one_series :: "string list \<Rightarrow> cell list list \<Rightarrow> Response" where
  "one_series columns rows =
     \<lparr>Results = [\<lparr>Series = [\<lparr>Columns = columns, Values = rows\<rparr>]\<rparr>], Err = []\<rparr>"

definition example_world :: world where
  "example_world =
     \<lparr>Query = (\<lambda>q. Inr no_point), Write = (\<lambda>k bp. Some ''timeout''),
      Since_clock = (\<lambda>i. T0), Now = T0\<rparr>"

text \<open>
  In \<open>five_minute_world rows\<close> only the 5-minute interval is due (the store holds no
  5-minute aggregate, and a one minute old aggregate of every other interval), the bulk
  query returns \<open>rows\<close> (under the columns the revision asks for), every write fails,
  and the clock stands at \<open>T0\<close>.
\<close>

definition five_minute_world :: "cell list list \<Rightarrow> world" where
  "five_minute_world rows =
     \<lparr>Query = (\<lambda>q.
        if q = staleness_query example_args ''5m'' (PartialWhereClauseForTags [(''sta'', ''roof'')])
          then Inr no_point
        else if q = bulk_query_wd example_args ''5m'' (PartialWhereClauseForTags [(''sta'', ''roof'')])
          then Inr (one_series [''time'', ''wd''] rows)
        else if q = bulk_query_p1 example_args ''5m'' (PartialWhereClauseForTags [(''sta'', ''roof'')])
          then Inr (one_series [''time'', ''wd'', ''ws''] rows)
        else Inr (one_series [''time'', ''mean''] [[CString ''2025-01-13T11:59:00Z'', CNumber ''0'']])),
      Write = (\<lambda>k bp. Some ''timeout''),
      Since_clock = (\<lambda>i. T0),
      Now = T0\<rparr>"

subsection \<open>The rules in the words of the specification\<close>

text \<open>
  The three-tier rule of section 4.5: above the primary cutoff the label is \<^verbatim>\<open>VAR\<close>;
  above the secondary cutoff and at most the primary cutoff it is the coarse (8-point)
  compass string of the mean; at or below the secondary cutoff it is the fine (16-point)
  one. \<open>fmt\<close> is the compass-string formatter, \<open>DirectionStrPrecision1\<close> its coarse
  and \<open>DirectionStrPrecision2\<close> its fine precision (the precisions the code passes for
  the primary and the secondary intercardinal).
\<close>

definition spec_three_tier_label ::
    "(real \<Rightarrow> DirectionStrPrecision \<Rightarrow> string) \<Rightarrow> real \<Rightarrow> real \<Rightarrow> real \<Rightarrow> real \<Rightarrow> string" where
  "spec_three_tier_label fmt secondary primary mean sd =
     (if sd > primary then ''VAR''
      else if secondary < sd \<and> sd \<le> primary then fmt mean DirectionStrPrecision1
      else fmt mean DirectionStrPrecision2)"

text \<open>
  The staleness rule of section 4.2 speaks of the most recent prior point of a reply:
  \<open>no_prior_point\<close> holds of a response without a result or without a series, and
  \<open>prior_point\<close> is the text of the time of the one stored point in a response of one
  result with one series whose first column is \<^verbatim>\<open>time\<close>.
\<close>

definition no_prior_point :: "Response \<Rightarrow> bool" where
  "no_prior_point r = (Results r = [] \<or> Series (hd (Results r)) = [])"

definition prior_point :: "Response \<Rightarrow> string option" where
  "prior_point r =
     (case Results r of
        [res] \<Rightarrow>
          (case Series res of
             [row] \<Rightarrow>
               (case (Columns row, Values row) of
                  (c # _, (CString s # _) # _) \<Rightarrow> if c = ''time'' then Some s else None
                | _ \<Rightarrow> None)
           | _ \<Rightarrow> None)
      | _ \<Rightarrow> None)"

text \<open>
  The bucket rule of section 4.4: a sample is within the window of an interval when its
  age relative to the run time is at most the interval's duration.
\<close>

definition within_window :: "Time \<Rightarrow> Time \<Rightarrow> string \<Rightarrow> bool" where
  "within_window now t interval =
     (case windDirIntervalToDuration interval of
        Return d \<Rightarrow> now - t \<le> d
      | _ \<Rightarrow> False)"

section \<open>Basic facts\<close>

lemma bind_simps [simp]:
  "bind (Return x) f = f x"
  "bind (Fail e) f = Fail e"
  "bind (Panic p) f = Panic p"
  by (simp_all add: bind_def)

lemma bind_eq_Return: "bind m f = Return y \<longleftrightarrow> (\<exists>x. m = Return x \<and> f x = Return y)"
  by (cases m) simp_all

lemma andThen_simps [simp]:
  "andThen (tr, Return x) f = (tr @ fst (f x), snd (f x))"
  "andThen (tr, Fail e) f = (tr, Fail e)"
  "andThen (tr, Panic p) f = (tr, Panic p)"
  by (simp_all add: andThen_def split: prod.splits)


lemmas interval_defs =
  wdInterval6h_def wdInterval3h_def wdInterval1h_def
  wdInterval30m_def wdInterval15m_def wdInterval5m_def

lemmas unit_defs = Hour_def Minute_def Second_def

lemma known_interval:
  "interval \<in> set allWindDirectionIntervals \<longleftrightarrow>
     interval = ''6h'' \<or> interval = ''3h'' \<or> interval = ''1h''
     \<or> interval = ''30m'' \<or> interval = ''15m'' \<or> interval = ''5m''"
  by (auto simp: allWindDirectionIntervals_def interval_defs)

lemma windDirIntervalToDuration_known:
  "windDirIntervalToDuration ''6h'' = Return 21600000000000"
  "windDirIntervalToDuration ''3h'' = Return 10800000000000"
  "windDirIntervalToDuration ''1h'' = Return 3600000000000"
  "windDirIntervalToDuration ''30m'' = Return 1800000000000"
  "windDirIntervalToDuration ''15m'' = Return 900000000000"
  "windDirIntervalToDuration ''5m'' = Return 300000000000"
  by (simp_all add: windDirIntervalToDuration_def interval_defs unit_defs)

lemma maxTimeBetweenAggs_known:
  "maxTimeBetweenAggsForWindDirInterval ''6h'' = Return 3600000000000"
  "maxTimeBetweenAggsForWindDirInterval ''3h'' = Return 2400000000000"
  "maxTimeBetweenAggsForWindDirInterval ''1h'' = Return 1200000000000"
  "maxTimeBetweenAggsForWindDirInterval ''30m'' = Return 600000000000"
  "maxTimeBetweenAggsForWindDirInterval ''15m'' = Return 300000000000"
  "maxTimeBetweenAggsForWindDirInterval ''5m'' = Return 150000000000"
  by (simp_all add: maxTimeBetweenAggsForWindDirInterval_def interval_defs unit_defs)

lemma maxTimeBetweenAggs_p1a_known:
  "maxTimeBetweenAggsForWindDirInterval_p1a ''6h'' = Return 1200000000000"
  "maxTimeBetweenAggsForWindDirInterval_p1a ''3h'' = Return 600000000000"
  "maxTimeBetweenAggsForWindDirInterval_p1a ''1h'' = Return 300000000000"
  "maxTimeBetweenAggsForWindDirInterval_p1a ''30m'' = Return 150000000000"
  "maxTimeBetweenAggsForWindDirInterval_p1a ''15m'' = Return 150000000000"
  "maxTimeBetweenAggsForWindDirInterval_p1a ''5m'' = Return 60000000000"
  by (simp_all add: maxTimeBetweenAggsForWindDirInterval_p1a_def interval_defs unit_defs)

lemma stdDevThresholds_wd_known:
  "stdDevThresholdsForWindDirIntervalCardinalResult_wd ''6h'' = Return (30, 38)"
  "stdDevThresholdsForWindDirIntervalCardinalResult_wd ''3h'' = Return (35, 40)"
  "stdDevThresholdsForWindDirIntervalCardinalResult_wd ''1h'' = Return (38, 43)"
  "stdDevThresholdsForWindDirIntervalCardinalResult_wd ''30m'' = Return (44, 50)"
  "stdDevThresholdsForWindDirIntervalCardinalResult_wd ''15m'' = Return (50, 54)"
  "stdDevThresholdsForWindDirIntervalCardinalResult_wd ''5m'' = Return (56, 60)"
  by (simp_all add: stdDevThresholdsForWindDirIntervalCardinalResult_wd_def interval_defs)

lemma stdDevThresholds_p1b_known:
  "stdDevThresholdsForWindDirIntervalCardinalResult_p1b ''6h'' = Return (30, 38)"
  "stdDevThresholdsForWindDirIntervalCardinalResult_p1b ''3h'' = Return (35, 40)"
  "stdDevThresholdsForWindDirIntervalCardinalResult_p1b ''1h'' = Return (38, 43)"
  "stdDevThresholdsForWindDirIntervalCardinalResult_p1b ''30m'' = Return (42, 45)"
  "stdDevThresholdsForWindDirIntervalCardinalResult_p1b ''15m'' = Return (43.5, 46)"
  "stdDevThresholdsForWindDirIntervalCardinalResult_p1b ''5m'' = Return (45, 46.5)"
  by (simp_all add: stdDevThresholdsForWindDirIntervalCardinalResult_p1b_def interval_defs)

lemma Sub_le_iff:
  assumes "minDuration \<le> d" and "d < maxDuration"
  shows "Sub now t \<le> d \<longleftrightarrow> now - t \<le> d"
  using assms by (auto simp: Sub_def Let_def)

lemma Sub_gt_iff:
  assumes "minDuration \<le> d" and "d < maxDuration"
  shows "Sub now t > d \<longleftrightarrow> now - t > d"
  using assms by (auto simp: Sub_def Let_def)

lemma index_simps [simp]:
  "index (x # xs) 0 = Return x"
  "index [] i = Panic (IndexOutOfRange i 0)"
  "index (x # y # ys) (Suc 0) = Return y"
  "index (x # y # z # zs) 2 = Return z"
  by (simp_all add: index_def)

lemma point_time_p1_known:
  assumes "interval \<in> set allWindDirectionIntervals"
  shows "\<exists>d. windDirIntervalToDuration interval = Return d \<and> 0 < d \<and> d < maxDuration \<and> 2 * (d div 2) = d
           \<and> (\<forall>now. point_time_p1 now interval = Return (now - d div 2))
           \<and> (\<forall>t. staleness_reference_p1 interval t = Return (t + d div 2))"
  using assms unfolding known_interval
  by (elim disjE)
     (simp_all add: windDirIntervalToDuration_known point_time_p1_def staleness_reference_p1_def
        Add_def signed_divide_int_def maxDuration_def)

section \<open>Tag parsing and the written tag set\<close>


text \<open>
  C9. \<^verbatim>\<open>ParseTags("")\<close> returns an error, not an empty tag map, so \<^verbatim>\<open>main\<close> with the
  default (empty) \<^verbatim>\<open>-tags\<close> flag stops at \<^verbatim>\<open>log.Fatalf\<close>; yet
  \<^verbatim>\<open>PartialWhereClauseForTags\<close> takes an empty map and gives the empty where-clause.
\<close>

theorem ParseTags_empty_string_is_error:
  "ParseTags '''' = Inl ''''
   \<and> main_p2 L W Version (fl\<lparr>tagsIn := ''''\<rparr>) = ([], FatalParseTags '''')
   \<and> main_go L W Version (fl\<lparr>tagsIn := ''''\<rparr>) = ([], FatalParseTags '''')
   \<and> PartialWhereClauseForTags [] = ''''"
  by (simp add: ParseTags_def main_p2_def main_go_def PartialWhereClauseForTags_def)



section \<open>The classification label\<close>

lemma map_of_set_fields_label:
  "map_of (set_fields args interval mean stdDev cardinal flds)
     (wdMeanIntercardinalResultFieldName args interval) = Some (Inr cardinal)"
  by (simp add: set_fields_def update_conv')

lemma stdDevThresholds_wd_ascending:
  assumes "interval \<in> set allWindDirectionIntervals"
  shows "\<exists>sec prim. stdDevThresholdsForWindDirIntervalCardinalResult_wd interval = Return (sec, prim)
           \<and> sec \<le> prim"
proof -
  have "\<exists>p. stdDevThresholdsForWindDirIntervalCardinalResult_wd interval = Return p \<and> fst p \<le> snd p"
    using assms unfolding known_interval
    by (elim disjE) (simp_all add: stdDevThresholds_wd_known)
  then show ?thesis by auto
qed

lemma stdDevThresholds_p1b_ascending:
  assumes "interval \<in> set allWindDirectionIntervals"
  shows "\<exists>sec prim. stdDevThresholdsForWindDirIntervalCardinalResult_p1b interval = Return (sec, prim)
           \<and> sec \<le> prim"
proof -
  have "\<exists>p. stdDevThresholdsForWindDirIntervalCardinalResult_p1b interval = Return p \<and> fst p \<le> snd p"
    using assms unfolding known_interval
    by (elim disjE) (simp_all add: stdDevThresholds_p1b_known)
  then show ?thesis by auto
qed

lemma cardinal_wd_three_tier:
  assumes "stdDevThresholdsForWindDirIntervalCardinalResult_wd interval = Return (sec, prim)"
    and "sec \<le> prim"
  shows "cardinal_wd L interval mean sd
           = Return (spec_three_tier_label (DirectionStr L) sec prim mean sd)"
  using assms by (simp add: cardinal_wd_def spec_three_tier_label_def)

lemma cardinal_p1b_three_tier:
  assumes "stdDevThresholdsForWindDirIntervalCardinalResult_p1b interval = Return (sec, prim)"
    and "sec \<le> prim"
  shows "cardinal_p1b L interval mean sd
           = Return (spec_three_tier_label (DirectionStr L) sec prim mean sd)"
  using assms by (simp add: cardinal_p1b_def spec_three_tier_label_def)

lemma cardinal_p1a_two_tier:
  "cardinal_p1a L interval mean sd =
     (if sd \<ge> varThresholdForWindDirInterval interval then ''VAR''
      else DirectionStr L mean DirectionStrPrecision2)"
  by (simp add: cardinal_p1a_def)

lemma varThreshold_known:
  "varThresholdForWindDirInterval ''6h'' = 60"
  "varThresholdForWindDirInterval ''3h'' = 55"
  "varThresholdForWindDirInterval ''1h'' = 52"
  "varThresholdForWindDirInterval ''30m'' = 51.5"
  "varThresholdForWindDirInterval ''15m'' = 51"
  "varThresholdForWindDirInterval ''5m'' = 50"
  by (simp_all add: varThresholdForWindDirInterval_def interval_defs)

lemma aggregate_wd_label:
  assumes "interval \<in> set allWindDirectionIntervals" and "intervalData interval \<noteq> []"
  shows "\<exists>sec prim flds'.
           stdDevThresholdsForWindDirIntervalCardinalResult_wd interval = Return (sec, prim)
         \<and> aggregate_wd L args intervalData interval flds = Return flds'
         \<and> map_of flds' (wdMeanIntercardinalResultFieldName args interval)
             = Some (Inr (spec_three_tier_label (DirectionStr L) sec prim
                            (AvgDirectionDeg L (intervalData interval))
                            (StdDevDeg L (intervalData interval))))"
proof -
  from stdDevThresholds_wd_ascending [OF assms(1)] obtain sec prim where
    th: "stdDevThresholdsForWindDirIntervalCardinalResult_wd interval = Return (sec, prim)"
    and asc: "sec \<le> prim"
    by blast
  show ?thesis
    using assms(2) th cardinal_wd_three_tier [OF th asc]
    by (simp add: aggregate_wd_def Let_def map_of_set_fields_label)
qed


lemma set_fields_nonempty: "set_fields args interval mean stdDev cardinal flds \<noteq> []"
  by (cases flds) (auto simp: set_fields_def split: if_splits)

lemma aggregate_p1b_label:
  assumes "interval \<in> set allWindDirectionIntervals" and "intervalData interval \<noteq> []"
    and "WeightedAvgDirectionDeg L (dirSeries (intervalData interval)) (spdSeries (intervalData interval)) = Inr mean"
    and "WeightedStdDevDirectionDeg L (dirSeries (intervalData interval)) (spdSeries (intervalData interval)) = Inr sd"
    and "\<forall>flds ts. flds \<noteq> [] \<longrightarrow> NewPoint_err L (MeasurementTo args) tags flds ts = None"
  shows "\<exists>sec prim pt.
           stdDevThresholdsForWindDirIntervalCardinalResult_p1b interval = Return (sec, prim)
         \<and> aggregate_p1b L args tags now intervalData interval bp = Return (bp @ [pt])
         \<and> map_of (point_fields pt) (wdMeanIntercardinalResultFieldName args interval)
             = Some (Inr (spec_three_tier_label (DirectionStr L) sec prim mean sd))"
proof -
  from stdDevThresholds_p1b_ascending [OF assms(1)] obtain sec prim where
    th: "stdDevThresholdsForWindDirIntervalCardinalResult_p1b interval = Return (sec, prim)"
    and asc: "sec \<le> prim"
    by blast
  from point_time_p1_known [OF assms(1)] obtain d where
    ts: "point_time_p1 now interval = Return (now - d div 2)"
    by blast
  show ?thesis
    using assms(2-5) th ts cardinal_p1b_three_tier [OF th asc, of L mean sd]
    by (simp add: aggregate_p1b_def Let_def map_of_set_fields_label set_fields_nonempty)
qed

lemma aggregate_p1a_label:
  assumes "interval \<in> set allWindDirectionIntervals" and "intervalData interval \<noteq> []"
    and "WeightedAvgDirectionDeg L (dirSeries (intervalData interval)) (spdSeries (intervalData interval)) = Inr mean"
    and "WeightedStdDevDirectionDeg L (dirSeries (intervalData interval)) (spdSeries (intervalData interval)) = Inr sd"
    and "\<forall>flds ts. flds \<noteq> [] \<longrightarrow> NewPoint_err L (MeasurementTo args) (WriteTags args) flds ts = None"
  shows "\<exists>pt.
           aggregate_p1a L args now intervalData interval retv = Return (retv @ [pt])
         \<and> map_of (point_fields pt) (wdMeanIntercardinalResultFieldName args interval)
             = Some (Inr (if sd \<ge> varThresholdForWindDirInterval interval then ''VAR''
                          else DirectionStr L mean DirectionStrPrecision2))"
proof -
  from point_time_p1_known [OF assms(1)] obtain d where
    ts: "point_time_p1 now interval = Return (now - d div 2)"
    by blast
  show ?thesis
    using assms(2-5) ts
    by (simp add: aggregate_p1a_def Let_def map_of_set_fields_label set_fields_nonempty
        cardinal_p1a_two_tier)
qed

text \<open>
  C1, as the code has it. For a due interval with a non-empty bucket, the label stored
  under the \<^verbatim>\<open>_mean_intercardinal_\<close> field follows the three-tier rule over the
  interval's two cutoffs in the two revisions that have two cutoffs (wd, on the
  unweighted statistics, and p1b, on the weighted ones). In p1a, which has one threshold
  per interval, the label is \<^verbatim>\<open>VAR\<close> when the standard deviation is at or above the
  threshold and the fine compass string of the mean otherwise; p1a never gives the
  coarse string.
\<close>

theorem classification_label_by_revision:
  assumes "interval \<in> set allWindDirectionIntervals"
  shows
    "(intervalData interval \<noteq> [] \<longrightarrow>
        (\<exists>sec prim flds'.
            stdDevThresholdsForWindDirIntervalCardinalResult_wd interval = Return (sec, prim)
          \<and> aggregate_wd L args intervalData interval flds = Return flds'
          \<and> map_of flds' (wdMeanIntercardinalResultFieldName args interval)
              = Some (Inr (spec_three_tier_label (DirectionStr L) sec prim
                             (AvgDirectionDeg L (intervalData interval))
                             (StdDevDeg L (intervalData interval))))))
   \<and> (weighted interval \<noteq> []
        \<and> WeightedAvgDirectionDeg L (dirSeries (weighted interval)) (spdSeries (weighted interval)) = Inr mean
        \<and> WeightedStdDevDirectionDeg L (dirSeries (weighted interval)) (spdSeries (weighted interval)) = Inr sd
        \<and> (\<forall>flds ts. flds \<noteq> [] \<longrightarrow> NewPoint_err L (MeasurementTo args) tags flds ts = None)
        \<and> (\<forall>flds ts. flds \<noteq> [] \<longrightarrow> NewPoint_err L (MeasurementTo args) (WriteTags args) flds ts = None)
      \<longrightarrow>
        (\<exists>sec prim pt.
            stdDevThresholdsForWindDirIntervalCardinalResult_p1b interval = Return (sec, prim)
          \<and> aggregate_p1b L args tags now weighted interval bp = Return (bp @ [pt])
          \<and> map_of (point_fields pt) (wdMeanIntercardinalResultFieldName args interval)
              = Some (Inr (spec_three_tier_label (DirectionStr L) sec prim mean sd)))
        \<and> (\<exists>pt.
            aggregate_p1a L args now weighted interval bp = Return (bp @ [pt])
          \<and> map_of (point_fields pt) (wdMeanIntercardinalResultFieldName args interval)
              = Some (Inr (if sd \<ge> varThresholdForWindDirInterval interval then ''VAR''
                           else DirectionStr L mean DirectionStrPrecision2))))"
  using aggregate_wd_label [OF assms, of intervalData L args flds]
    aggregate_p1b_label [OF assms, of weighted L mean sd args tags now bp]
    aggregate_p1a_label [OF assms, of weighted L mean sd args now bp]
  by blast


theorem classification_label_by_revision_witness:
  "''1h'' \<in> set allWindDirectionIntervals
   \<and> (\<lambda>i. [350::real]) ''1h'' \<noteq> []
   \<and> (\<lambda>i. [\<lparr>dir = 350, spd = 5\<rparr>]) ''1h'' \<noteq> []
   \<and> WeightedAvgDirectionDeg example_library [350] [5] = Inr 110
   \<and> WeightedStdDevDirectionDeg example_library [350] [5] = Inr 40
   \<and> (\<exists>flds'. aggregate_wd example_library example_args (\<lambda>i. [350]) ''1h'' [] = Return flds'
         \<and> map_of flds' ''wd_mean_intercardinal_1h'' = Some (Inr ''E''))
   \<and> (\<exists>pt. aggregate_p1b example_library example_args [] T0 (\<lambda>i. [\<lparr>dir = 350, spd = 5\<rparr>]) ''1h'' [] = Return [pt]
         \<and> map_of (point_fields pt) ''wd_mean_intercardinal_1h'' = Some (Inr ''E''))
   \<and> (\<exists>pt. aggregate_p1a example_library example_args T0 (\<lambda>i. [\<lparr>dir = 350, spd = 5\<rparr>]) ''1h'' [] = Return [pt]
         \<and> map_of (point_fields pt) ''wd_mean_intercardinal_1h'' = Some (Inr ''ESE''))"
proof -
  have k: "''1h'' \<in> set allWindDirectionIntervals"
    by (simp add: known_interval)
  have n: "\<forall>flds ts. flds \<noteq> [] \<longrightarrow> NewPoint_err example_library (MeasurementTo example_args) tg flds ts = None" for tg
    by (simp add: example_library_def)
  have nm: "wdMeanIntercardinalResultFieldName example_args ''1h'' = ''wd_mean_intercardinal_1h''"
    by (simp add: wdMeanIntercardinalResultFieldName_def example_args_def)
  have lib: "AvgDirectionDeg example_library xs = 110" "StdDevDeg example_library xs = 40"
    "WeightedAvgDirectionDeg example_library xs ws = Inr 110"
    "WeightedStdDevDirectionDeg example_library xs ws = Inr 40"
    "DirectionStr example_library m DirectionStrPrecision1 = ''E''"
    "DirectionStr example_library m DirectionStrPrecision2 = ''ESE''" for xs ws m
    by (simp_all add: example_library_def)
  show ?thesis
    using classification_label_by_revision [OF k, of "\<lambda>i. [350]" example_library example_args "[]"
        "\<lambda>i. [\<lparr>dir = 350, spd = 5\<rparr>]" 110 40 "[]" T0 "[]"] n
    by (simp add: k nm lib stdDevThresholds_wd_known stdDevThresholds_p1b_known
        spec_three_tier_label_def varThreshold_known dirSeries_def spdSeries_def)
qed


text \<open>
  C1 as stated fails on p1a (lines 271-274): for the 1-hour interval, whose cutoffs are
  38 and 43 in wd and in p1b and whose threshold is 52 in p1a, a standard deviation of 40
  gives the fine string where the rule gives the coarse one, and a standard deviation of
  45 gives the fine string where the rule gives \<^verbatim>\<open>VAR\<close>.
\<close>

theorem single_threshold_revision_not_three_tier:
  "cardinal_p1a example_library ''1h'' 110 40 = ''ESE''
   \<and> spec_three_tier_label (DirectionStr example_library) 38 43 110 40 = ''E''
   \<and> cardinal_p1a example_library ''1h'' 110 45 = ''ESE''
   \<and> spec_three_tier_label (DirectionStr example_library) 38 43 110 45 = ''VAR''"
  by (simp add: cardinal_p1a_def varThreshold_known spec_three_tier_label_def example_library_def)


section \<open>Staleness\<close>

lemma staleness_check_no_prior:
  assumes "Err r = []" and "no_prior_point r"
  shows "staleness_check L due (Inr r) = Return True"
  using assms by (cases "Results r") (auto simp: staleness_check_def no_prior_point_def)

lemma staleness_check_prior:
  assumes "Err r = []" and "prior_point r = Some s" and "Parse L s = Inr t"
  shows "staleness_check L due (Inr r) = due t"
  using assms
  by (auto simp: staleness_check_def prior_point_def assert_string_def
      split: list.splits cell.splits if_splits)

lemma staleness_check_Return:
  assumes "staleness_check L due reply = Return b"
  shows "\<exists>r. reply = Inr r \<and> Err r = []
           \<and> (no_prior_point r \<and> b
                \<or> (\<exists>s t. prior_point r = Some s \<and> Parse L s = Inr t \<and> due t = Return b))"
proof (cases reply)
  case (Inl err)
  with assms show ?thesis by (simp add: staleness_check_def)
next
  case (Inr r)
  show ?thesis
  proof (cases "Err r = [] \<and> \<not> no_prior_point r")
    case False
    with assms Inr show ?thesis
      by (cases "Results r") (auto simp: staleness_check_def no_prior_point_def split: if_splits)
  next
    case True
    with assms Inr show ?thesis
      by (auto simp: staleness_check_def no_prior_point_def prior_point_def index_def
          assert_string_def bind_eq_Return
          split: if_splits list.splits cell.splits sum.splits)
  qed
qed

lemma due_known:
  assumes "interval \<in> set allWindDirectionIntervals"
  shows "\<exists>d m m'. windDirIntervalToDuration interval = Return d
           \<and> maxTimeBetweenAggsForWindDirInterval interval = Return m
           \<and> maxTimeBetweenAggsForWindDirInterval_p1a interval = Return m'
           \<and> (\<forall>W t. due_wd W interval t = Return (Since_clock W interval - t > m)
                \<and> due_p1b W interval t = Return (Since_clock W interval - (t + d div 2) > m)
                \<and> due_p1a W interval t = Return (Since_clock W interval - (t + d div 2) > m'))
           \<and> (interval = ''5m'' \<longrightarrow> m = 2 * Minute + 30 * Second \<and> m' = 1 * Minute)"
  using assms unfolding known_interval
  by (elim disjE)
     (simp_all add: due_wd_def due_p1b_def due_p1a_def staleness_reference_wd_def
        staleness_reference_p1_def windDirIntervalToDuration_known maxTimeBetweenAggs_known
        maxTimeBetweenAggs_p1a_known Add_def signed_divide_int_def Sub_gt_iff
        minDuration_def maxDuration_def unit_defs)


text \<open>
  C2, as the code has it. For every interval of the enumeration and every reply without
  a store error, the staleness check returns in two cases only: when the reply holds no
  prior point the interval is due, and when it holds one whose time parses the interval
  is due exactly when the clock is more than the interval's maximum staleness past the
  reference time of the point. The reference time is the time of the point in wd and
  that time plus half the window in p1a and p1b. The maximum staleness of the 5-minute
  interval is 2m30s in wd and p1b and 1 minute in p1a.
\<close>

theorem staleness_rule_by_revision:
  assumes "interval \<in> set allWindDirectionIntervals" and "Err r = []"
  shows "\<exists>d m m'.
      windDirIntervalToDuration interval = Return d
    \<and> maxTimeBetweenAggsForWindDirInterval interval = Return m
    \<and> maxTimeBetweenAggsForWindDirInterval_p1a interval = Return m'
    \<and> (interval = ''5m'' \<longrightarrow> m = 2 * Minute + 30 * Second \<and> m' = 1 * Minute)
    \<and> (no_prior_point r \<longrightarrow>
          staleness_check L (due_wd W interval) (Inr r) = Return True
        \<and> staleness_check L (due_p1b W interval) (Inr r) = Return True
        \<and> staleness_check L (due_p1a W interval) (Inr r) = Return True)
    \<and> (\<forall>s t. prior_point r = Some s \<and> Parse L s = Inr t \<longrightarrow>
          staleness_check L (due_wd W interval) (Inr r)
            = Return (Since_clock W interval - t > m)
        \<and> staleness_check L (due_p1b W interval) (Inr r)
            = Return (Since_clock W interval - (t + d div 2) > m)
        \<and> staleness_check L (due_p1a W interval) (Inr r)
            = Return (Since_clock W interval - (t + d div 2) > m'))
    \<and> (\<forall>due b. staleness_check L due (Inr r) = Return b \<longrightarrow>
          no_prior_point r \<or> (\<exists>s t. prior_point r = Some s \<and> Parse L s = Inr t))"
proof -
  from due_known [OF assms(1)] obtain d m m' where
    k: "windDirIntervalToDuration interval = Return d"
       "maxTimeBetweenAggsForWindDirInterval interval = Return m"
       "maxTimeBetweenAggsForWindDirInterval_p1a interval = Return m'"
       "interval = ''5m'' \<longrightarrow> m = 2 * Minute + 30 * Second \<and> m' = 1 * Minute"
    and due: "\<And>W t. due_wd W interval t = Return (Since_clock W interval - t > m)"
       "\<And>W t. due_p1b W interval t = Return (Since_clock W interval - (t + d div 2) > m)"
       "\<And>W t. due_p1a W interval t = Return (Since_clock W interval - (t + d div 2) > m')"
    by blast
  have a: "no_prior_point r \<longrightarrow>
          staleness_check L (due_wd W interval) (Inr r) = Return True
        \<and> staleness_check L (due_p1b W interval) (Inr r) = Return True
        \<and> staleness_check L (due_p1a W interval) (Inr r) = Return True"
    using staleness_check_no_prior [OF assms(2)] by blast
  have b: "\<forall>s t. prior_point r = Some s \<and> Parse L s = Inr t \<longrightarrow>
          staleness_check L (due_wd W interval) (Inr r)
            = Return (Since_clock W interval - t > m)
        \<and> staleness_check L (due_p1b W interval) (Inr r)
            = Return (Since_clock W interval - (t + d div 2) > m)
        \<and> staleness_check L (due_p1a W interval) (Inr r)
            = Return (Since_clock W interval - (t + d div 2) > m')"
    using staleness_check_prior [OF assms(2)] due by simp
  have c: "\<forall>due b. staleness_check L due (Inr r) = Return b \<longrightarrow>
          no_prior_point r \<or> (\<exists>s t. prior_point r = Some s \<and> Parse L s = Inr t)"
    using staleness_check_Return [of L _ "Inr r"] by blast
  from k a b c show ?thesis by blast
qed

theorem staleness_rule_by_revision_witness:
  "''5m'' \<in> set allWindDirectionIntervals
   \<and> Err no_point = []
   \<and> no_prior_point no_point
   \<and> staleness_check example_library (due_wd example_world ''5m'') (Inr no_point) = Return True
   \<and> Err (one_series [''time'', ''wd_mean_5m''] [[CString ''2025-01-13T11:57:00Z'', CNumber ''10'']]) = []
   \<and> prior_point (one_series [''time'', ''wd_mean_5m''] [[CString ''2025-01-13T11:57:00Z'', CNumber ''10'']])
       = Some ''2025-01-13T11:57:00Z''
   \<and> Parse example_library ''2025-01-13T11:57:00Z'' = Inr (T0 - 3 * Minute)
   \<and> staleness_check example_library (due_wd example_world ''5m'')
        (Inr (one_series [''time'', ''wd_mean_5m''] [[CString ''2025-01-13T11:57:00Z'', CNumber ''10'']]))
       = Return True
   \<and> staleness_check example_library (due_p1b example_world ''5m'')
        (Inr (one_series [''time'', ''wd_mean_5m''] [[CString ''2025-01-13T11:57:00Z'', CNumber ''10'']]))
       = Return False
   \<and> staleness_check example_library (due_p1a example_world ''5m'')
        (Inr (one_series [''time'', ''wd_mean_5m''] [[CString ''2025-01-13T11:57:00Z'', CNumber ''10'']]))
       = Return False"
proof -
  have k: "''5m'' \<in> set allWindDirectionIntervals"
    by (simp add: known_interval)
  have e1: "Err no_point = []"
    by (simp add: no_point_def)
  have e2: "Err (one_series [''time'', ''wd_mean_5m''] [[CString ''2025-01-13T11:57:00Z'', CNumber ''10'']]) = []"
    by (simp add: one_series_def)
  have n: "no_prior_point no_point"
    by (simp add: no_prior_point_def no_point_def)
  have p: "prior_point (one_series [''time'', ''wd_mean_5m''] [[CString ''2025-01-13T11:57:00Z'', CNumber ''10'']])
       = Some ''2025-01-13T11:57:00Z''"
    by (simp add: prior_point_def one_series_def)
  have t: "Parse example_library ''2025-01-13T11:57:00Z'' = Inr (T0 - 3 * Minute)"
    by (simp add: example_library_def)
  have c: "Since_clock example_world i = T0" for i
    by (simp add: example_world_def)
  show ?thesis
    using staleness_rule_by_revision [OF k e1, where L = example_library and W = example_world]
      staleness_rule_by_revision [OF k e2, where L = example_library and W = example_world]
    by (simp add: k e1 e2 n p t c windDirIntervalToDuration_known maxTimeBetweenAggs_known
        maxTimeBetweenAggs_p1a_known unit_defs)
qed


text \<open>
  C2 as stated fails on p1a (lines 66-83): its maximum staleness for the 5-minute
  interval is 1 minute, not 2m30s, so a stored 5-minute point whose reference time is 2
  minutes old is due there.
\<close>

theorem p1a_five_minute_staleness_is_one_minute:
  "maxTimeBetweenAggsForWindDirInterval_p1a ''5m'' = Return (1 * Minute)
   \<and> 1 * Minute \<noteq> 2 * Minute + 30 * Second
   \<and> staleness_reference_p1 ''5m'' (T0 - 4 * Minute - 30 * Second) = Return (T0 - 2 * Minute)
   \<and> due_p1a example_world ''5m'' (T0 - 4 * Minute - 30 * Second) = Return True
   \<and> \<not> (Since_clock example_world ''5m'' - (T0 - 2 * Minute) > 2 * Minute + 30 * Second)"
  by (simp add: maxTimeBetweenAggs_p1a_known due_p1a_def staleness_reference_p1_def
      windDirIntervalToDuration_known Add_def signed_divide_int_def Sub_def Let_def
      maxDuration_def minDuration_def example_world_def T0_def unit_defs)




section \<open>The due intervals and the bulk query\<close>




lemma duration_known:
  assumes "interval \<in> set allWindDirectionIntervals"
  shows "\<exists>d. windDirIntervalToDuration interval = Return d \<and> 0 < d \<and> d < maxDuration"
  using assms unfolding known_interval
  by (elim disjE) (simp_all add: windDirIntervalToDuration_known maxDuration_def)











section \<open>The buckets\<close>

lemma Clamped_range: "0 \<le> Clamped d \<and> Clamped d < 360"
proof -
  have "of_int \<lfloor>d / 360\<rfloor> \<le> d / 360" "d / 360 < of_int \<lfloor>d / 360\<rfloor> + 1"
    by linarith+
  then show ?thesis
    unfolding Clamped_def by (simp add: field_simps)
qed

lemma admit_Return:
  assumes "distinct todo" and "set todo \<subseteq> set allWindDirectionIntervals"
  shows "admit now t x todo data
           = Return (\<lambda>i. if i \<in> set todo \<and> within_window now t i then data i @ [x] else data i)"
  using assms
proof (induction todo arbitrary: data)
  case Nil
  then show ?case by simp
next
  case (Cons interval rest)
  from Cons.prems duration_known [of interval] obtain d where
    d: "windDirIntervalToDuration interval = Return d" "0 < d" "d < maxDuration"
    by auto
  have w: "Sub now t \<le> d \<longleftrightarrow> within_window now t interval"
    using d by (simp add: within_window_def Sub_le_iff minDuration_def)
  from Cons.prems have fresh: "interval \<notin> set rest" and r: "distinct rest"
    "set rest \<subseteq> set allWindDirectionIntervals"
    by auto
  show ?case
    using fresh by (auto simp: d w Cons.IH [OF r] fun_eq_iff)
qed

lemma buckets_wd_Return:
  assumes "distinct todo" and "set todo \<subseteq> set allWindDirectionIntervals"
    and "map (parse_row_wd L) rows = map Return samples"
  shows "buckets_wd L now todo rows data
           = Return (\<lambda>i. data i @ (if i \<in> set todo
                then map (\<lambda>(t, wd). Clamped wd) (filter (\<lambda>(t, wd). within_window now t i) samples)
                else []))"
  using assms(3)
proof (induction rows arbitrary: samples data)
  case Nil
  then show ?case by (auto simp: fun_eq_iff)
next
  case (Cons row rows)
  from Cons.prems obtain t wd rest where
    s: "samples = (t, wd) # rest" and p: "parse_row_wd L row = Return (t, wd)"
    and r: "map (parse_row_wd L) rows = map Return rest"
    by (cases samples) auto
  show ?case
    by (auto simp: s p admit_Return [OF assms(1,2)] Cons.IH [OF r] fun_eq_iff)
qed

lemma buckets_wd_parsed:
  assumes "buckets_wd L now todo rows data = Return data'"
  shows "\<exists>samples. map (parse_row_wd L) rows = map Return samples"
  using assms
proof (induction rows arbitrary: data)
  case Nil
  then show ?case by simp
next
  case (Cons row rows)
  from Cons.prems obtain s d where
    p: "parse_row_wd L row = Return s" and
    "buckets_wd L now todo rows d = Return data'"
    by (auto simp: bind_eq_Return split: prod.splits)
  from Cons.IH [OF this(2)] obtain samples where "map (parse_row_wd L) rows = map Return samples" ..
  with p have "map (parse_row_wd L) (row # rows) = map Return (s # samples)" by simp
  then show ?case ..
qed

lemma buckets_p1_Return:
  assumes "distinct todo" and "set todo \<subseteq> set allWindDirectionIntervals"
    and "map (parse_row_p1 L) rows = map Return samples"
  shows "buckets_p1 L now todo rows data
           = Return (\<lambda>i. data i @ (if i \<in> set todo
                then map (\<lambda>(t, d, dp). dp) (filter (\<lambda>(t, d, dp). within_window now t i) samples)
                else []))"
  using assms(3)
proof (induction rows arbitrary: samples data)
  case Nil
  then show ?case by (auto simp: fun_eq_iff)
next
  case (Cons row rows)
  from Cons.prems obtain t d dp rest where
    s: "samples = (t, d, dp) # rest" and p: "parse_row_p1 L row = Return (t, d, dp)"
    and r: "map (parse_row_p1 L) rows = map Return rest"
    by (cases samples) auto
  show ?case
    by (auto simp: s p admit_Return [OF assms(1,2)] Cons.IH [OF r] fun_eq_iff)
qed

lemma buckets_p1_parsed:
  assumes "buckets_p1 L now todo rows data = Return data'"
  shows "\<exists>samples. map (parse_row_p1 L) rows = map Return samples"
  using assms
proof (induction rows arbitrary: data)
  case Nil
  then show ?case by simp
next
  case (Cons row rows)
  from Cons.prems obtain s d where
    p: "parse_row_p1 L row = Return s" and
    "buckets_p1 L now todo rows d = Return data'"
    by (auto simp: bind_eq_Return split: prod.splits)
  from Cons.IH [OF this(2)] obtain samples where "map (parse_row_p1 L) rows = map Return samples" ..
  with p have "map (parse_row_p1 L) (row # rows) = map Return (s # samples)" by simp
  then show ?case ..
qed

lemma parse_row_p1_Clamped:
  assumes "parse_row_p1 L row = Return (t, d, dp)"
  shows "dir dp = Clamped d"
  using assms
  by (auto simp: parse_row_p1_def bind_def split: outcome.splits sum.splits)


text \<open>
  C5. For due intervals as the first loop gives them (each once, all of the
  enumeration), the bucket loop returns exactly when every fetched row parses, and then
  the bucket of each due interval holds, in the order of the rows, the samples of the
  rows whose age relative to the run time is at most the interval's duration, each once;
  a row within the window of several due intervals is in the bucket of each. The angle
  of every sample is the clamp of the raw angle of its row, so it lies in \<open>[0, 360)\<close>.
\<close>

theorem buckets_hold_the_clamped_samples_within_the_window:
  assumes "distinct todo" and "set todo \<subseteq> set allWindDirectionIntervals"
  shows
    "(buckets_wd L now todo rows (\<lambda>_. []) = Return data \<longleftrightarrow>
        (\<exists>samples. map (parse_row_wd L) rows = map Return samples
           \<and> data = (\<lambda>i. if i \<in> set todo
                then map (\<lambda>(t, wd). Clamped wd) (filter (\<lambda>(t, wd). within_window now t i) samples)
                else [])))
   \<and> (buckets_p1 L now todo rows (\<lambda>_. []) = Return weighted \<longleftrightarrow>
        (\<exists>samples. map (parse_row_p1 L) rows = map Return samples
           \<and> (\<forall>(t, d, dp) \<in> set samples. dir dp = Clamped d)
           \<and> weighted = (\<lambda>i. if i \<in> set todo
                then map (\<lambda>(t, d, dp). dp) (filter (\<lambda>(t, d, dp). within_window now t i) samples)
                else [])))
   \<and> 0 \<le> Clamped x \<and> Clamped x < 360"
proof -
  have wd: "buckets_wd L now todo rows (\<lambda>_. []) = Return data \<longleftrightarrow>
        (\<exists>samples. map (parse_row_wd L) rows = map Return samples
           \<and> data = (\<lambda>i. if i \<in> set todo
                then map (\<lambda>(t, wd). Clamped wd) (filter (\<lambda>(t, wd). within_window now t i) samples)
                else []))"
  proof
    assume r: "buckets_wd L now todo rows (\<lambda>_. []) = Return data"
    from buckets_wd_parsed [OF r] obtain samples where
      s: "map (parse_row_wd L) rows = map Return samples" ..
    from r buckets_wd_Return [OF assms s, of now "\<lambda>_. []"] s
    show "\<exists>samples. map (parse_row_wd L) rows = map Return samples
           \<and> data = (\<lambda>i. if i \<in> set todo
                then map (\<lambda>(t, wd). Clamped wd) (filter (\<lambda>(t, wd). within_window now t i) samples)
                else [])"
      by auto
  next
    assume "\<exists>samples. map (parse_row_wd L) rows = map Return samples
           \<and> data = (\<lambda>i. if i \<in> set todo
                then map (\<lambda>(t, wd). Clamped wd) (filter (\<lambda>(t, wd). within_window now t i) samples)
                else [])"
    then obtain samples where s: "map (parse_row_wd L) rows = map Return samples"
      and d: "data = (\<lambda>i. if i \<in> set todo
                then map (\<lambda>(t, wd). Clamped wd) (filter (\<lambda>(t, wd). within_window now t i) samples)
                else [])"
      by blast
    show "buckets_wd L now todo rows (\<lambda>_. []) = Return data"
      unfolding d buckets_wd_Return [OF assms s] by simp
  qed
  have p1: "buckets_p1 L now todo rows (\<lambda>_. []) = Return weighted \<longleftrightarrow>
        (\<exists>samples. map (parse_row_p1 L) rows = map Return samples
           \<and> (\<forall>(t, d, dp) \<in> set samples. dir dp = Clamped d)
           \<and> weighted = (\<lambda>i. if i \<in> set todo
                then map (\<lambda>(t, d, dp). dp) (filter (\<lambda>(t, d, dp). within_window now t i) samples)
                else []))"
  proof
    assume r: "buckets_p1 L now todo rows (\<lambda>_. []) = Return weighted"
    from buckets_p1_parsed [OF r] obtain samples where
      s: "map (parse_row_p1 L) rows = map Return samples" ..
    have c: "\<forall>(t, d, dp) \<in> set samples. dir dp = Clamped d"
    proof (clarify)
      fix t d dp
      assume "(t, d, dp) \<in> set samples"
      then have "Return (t, d, dp) \<in> set (map Return samples)" by simp
      with s have "Return (t, d, dp) \<in> set (map (parse_row_p1 L) rows)" by simp
      then obtain row where "parse_row_p1 L row = Return (t, d, dp)" by auto
      then show "dir dp = Clamped d" by (rule parse_row_p1_Clamped)
    qed
    from r buckets_p1_Return [OF assms s, of now "\<lambda>_. []"] s c
    show "\<exists>samples. map (parse_row_p1 L) rows = map Return samples
           \<and> (\<forall>(t, d, dp) \<in> set samples. dir dp = Clamped d)
           \<and> weighted = (\<lambda>i. if i \<in> set todo
                then map (\<lambda>(t, d, dp). dp) (filter (\<lambda>(t, d, dp). within_window now t i) samples)
                else [])"
      by auto
  next
    assume "\<exists>samples. map (parse_row_p1 L) rows = map Return samples
           \<and> (\<forall>(t, d, dp) \<in> set samples. dir dp = Clamped d)
           \<and> weighted = (\<lambda>i. if i \<in> set todo
                then map (\<lambda>(t, d, dp). dp) (filter (\<lambda>(t, d, dp). within_window now t i) samples)
                else [])"
    then obtain samples where s: "map (parse_row_p1 L) rows = map Return samples"
      and d: "weighted = (\<lambda>i. if i \<in> set todo
                then map (\<lambda>(t, d, dp). dp) (filter (\<lambda>(t, d, dp). within_window now t i) samples)
                else [])"
      by blast
    show "buckets_p1 L now todo rows (\<lambda>_. []) = Return weighted"
      unfolding d buckets_p1_Return [OF assms s] by simp
  qed
  from wd p1 Clamped_range [of x] show ?thesis by blast
qed

theorem buckets_hold_the_clamped_samples_within_the_window_witness:
  "distinct [''15m'', ''5m'']
   \<and> set [''15m'', ''5m''] \<subseteq> set allWindDirectionIntervals
   \<and> (\<exists>data. buckets_wd example_library T0 [''15m'', ''5m'']
                 [[CString ''2025-01-13T11:50:00Z'', CNumber ''370''],
                  [CString ''2025-01-13T11:59:00Z'', CNumber ''350'']] (\<lambda>_. []) = Return data
            \<and> data ''15m'' = [10, 350] \<and> data ''5m'' = [350] \<and> data ''1h'' = [])"
proof -
  have d: "distinct [''15m'', ''5m'']" by simp
  have k: "set [''15m'', ''5m''] \<subseteq> set allWindDirectionIntervals"
    by (simp add: known_interval)
  have p: "map (parse_row_wd example_library)
             [[CString ''2025-01-13T11:50:00Z'', CNumber ''370''],
              [CString ''2025-01-13T11:59:00Z'', CNumber ''350'']]
           = map Return [(T0 - 10 * Minute, 370), (T0 - Minute, 350)]"
    by (simp add: parse_row_wd_def assert_string_def assert_Number_def example_library_def)
  have c: "Clamped 370 = 10" "Clamped 350 = 350"
    by (simp_all add: Clamped_def)
  have w: "within_window T0 (T0 - 10 * Minute) ''15m''" "\<not> within_window T0 (T0 - 10 * Minute) ''5m''"
    "within_window T0 (T0 - Minute) ''15m''" "within_window T0 (T0 - Minute) ''5m''"
    by (simp_all add: within_window_def windDirIntervalToDuration_known unit_defs)
  define data where "data = (\<lambda>i. if i \<in> set [''15m'', ''5m'']
       then map (\<lambda>(t, wd). Clamped wd)
              (filter (\<lambda>(t, wd). within_window T0 t i)
                 [(T0 - 10 * Minute, 370 :: real), (T0 - Minute, 350)])
       else [])"
  have ex: "\<exists>samples.
      map (parse_row_wd example_library)
        [[CString ''2025-01-13T11:50:00Z'', CNumber ''370''],
         [CString ''2025-01-13T11:59:00Z'', CNumber ''350'']] = map Return samples
    \<and> data = (\<lambda>i. if i \<in> set [''15m'', ''5m'']
         then map (\<lambda>(t, wd). Clamped wd) (filter (\<lambda>(t, wd). within_window T0 t i) samples)
         else [])"
    by (rule exI [of _ "[(T0 - 10 * Minute, 370), (T0 - Minute, 350)]"]) (simp only: p data_def)
  have r: "buckets_wd example_library T0 [''15m'', ''5m'']
                 [[CString ''2025-01-13T11:50:00Z'', CNumber ''370''],
                  [CString ''2025-01-13T11:59:00Z'', CNumber ''350'']] (\<lambda>_. []) = Return data"
    using buckets_hold_the_clamped_samples_within_the_window [OF d k,
        where L = example_library and now = T0 and data = data
          and rows = "[[CString ''2025-01-13T11:50:00Z'', CNumber ''370''],
                       [CString ''2025-01-13T11:59:00Z'', CNumber ''350'']]"] ex
    by blast
  have v: "data ''15m'' = [10, 350]" "data ''5m'' = [350]" "data ''1h'' = []"
    by (simp_all add: data_def c w)
  from d k r v show ?thesis by blast
qed


section \<open>Writing\<close>

lemma Do_from_all_fail:
  assumes "\<forall>k. n \<le> k \<and> k < n + a \<longrightarrow> f k = Some (e k)"
  shows "Do_from f n a errs = (n + a, Some (errs @ map e [n..<n + a]))"
  using assms
proof (induction a arbitrary: n errs)
  case 0
  then show ?case by simp
next
  case (Suc a)
  from Suc.prems have here: "f n = Some (e n)" by simp
  from Suc.prems have "\<forall>k. Suc n \<le> k \<and> k < Suc n + a \<longrightarrow> f k = Some (e k)" by simp
  from Suc.IH [OF this, of "errs @ [e n]"] here show ?case
    by (simp add: upt_rec [of n])
qed

lemma write_batch_all_fail:
  assumes "\<forall>k < attempts. Write W k bp = Some (e k)"
  shows "write_batch L W attempts bp =
           replicate attempts (Wrote bp)
           @ [Logged (''failed to write to Influx: '' @ Error_text L (map e [0..<attempts]))]"
  using Do_from_all_fail [of 0 attempts "\<lambda>k. Write W k bp" e "[]"] assms
  by (simp add: write_batch_def Do_def)

lemma WindDirectionAgg_wd_after_prepare:
  assumes "prepare_wd L W Version args = (tr, Return (Some bp))"
  shows "WindDirectionAgg_wd L W Version args
           = (tr @ write_batch L W (InfluxWriteRetries args) bp, Return ())"
  using assms by (simp add: WindDirectionAgg_wd_def)

lemma WindDirectionAgg_p1b_after_prepare:
  assumes "prepare_p1b L W Version args = (tr, Return (Some bp))"
  shows "WindDirectionAgg_p1b L W Version args
           = (tr @ write_batch L W (InfluxWriteRetries args) bp, Return ())"
  using assms by (simp add: WindDirectionAgg_p1b_def)

lemma main_write_exit:
  assumes "points \<noteq> []" and "NewBatchPoints_err L = None"
  shows "main_write L W points = (write_batch L W influxWriteRetries points, ExitSuccess)"
  using assms by (simp add: main_write_def)

text \<open>
  C6. A run that reaches the write returns success whatever the write does: in wd and
  p1b \<^verbatim>\<open>WindDirectionAgg\<close> returns \<^verbatim>\<open>nil\<close>, and in \<^verbatim>\<open>src/main.go\<close> (which writes
  the points of p1a) \<^verbatim>\<open>main\<close> returns. When every attempt of the budget fails, the batch
  has been handed to \<^verbatim>\<open>Influx.Write\<close> once per attempt and the last thing the run does
  is to log the failure.
\<close>

theorem failed_write_is_logged_not_returned:
  "(prepare_wd L W Version args = (tr, Return (Some bp)) \<longrightarrow>
       snd (WindDirectionAgg_wd L W Version args) = Return ()
     \<and> ((\<forall>k < InfluxWriteRetries args. Write W k bp = Some (e k)) \<longrightarrow>
          WindDirectionAgg_wd L W Version args
            = (tr @ replicate (InfluxWriteRetries args) (Wrote bp)
                  @ [Logged (''failed to write to Influx: ''
                       @ Error_text L (map e [0..<InfluxWriteRetries args]))],
               Return ())))
   \<and> (prepare_p1b L W Version args = (tr, Return (Some bp)) \<longrightarrow>
       snd (WindDirectionAgg_p1b L W Version args) = Return ()
     \<and> ((\<forall>k < InfluxWriteRetries args. Write W k bp = Some (e k)) \<longrightarrow>
          WindDirectionAgg_p1b L W Version args
            = (tr @ replicate (InfluxWriteRetries args) (Wrote bp)
                  @ [Logged (''failed to write to Influx: ''
                       @ Error_text L (map e [0..<InfluxWriteRetries args]))],
               Return ())))
   \<and> (bp \<noteq> [] \<and> NewBatchPoints_err L = None \<longrightarrow>
       snd (main_write L W bp) = ExitSuccess
     \<and> ((\<forall>k < influxWriteRetries. Write W k bp = Some (e k)) \<longrightarrow>
          main_write L W bp
            = (replicate influxWriteRetries (Wrote bp)
                 @ [Logged (''failed to write to Influx: ''
                      @ Error_text L (map e [0..<influxWriteRetries]))],
               ExitSuccess)))"
  using WindDirectionAgg_wd_after_prepare [of L W Version args tr bp]
    WindDirectionAgg_p1b_after_prepare [of L W Version args tr bp]
    main_write_exit [of bp L W]
    write_batch_all_fail [of "InfluxWriteRetries args" W bp e L]
    write_batch_all_fail [of influxWriteRetries W bp e L]
  by simp


text \<open>
  The definitions that evaluate a run in the example worlds.
\<close>

lemmas run_defs =
  intervalsTodo_wd_def intervalsTodo_p1b_def intervalsTodo_p1a_def
  allWindDirectionIntervals_def interval_defs staleness_step_def Let_def
  five_minute_world_def staleness_query_def bulk_query_wd_def bulk_query_p1_def example_args_def
  wdMeanResultFieldName_def wdStdDevResultFieldName_def wdMeanIntercardinalResultFieldName_def
  PartialWhereClauseForTags_def staleness_check_def no_point_def
  one_series_def assert_string_def assert_Number_def example_library_def
  due_wd_def due_p1b_def due_p1a_def staleness_reference_wd_def staleness_reference_p1_def
  point_time_wd_def point_time_p1_def Add_def signed_divide_int_def
  windDirIntervalToDuration_known maxTimeBetweenAggs_known maxTimeBetweenAggs_p1a_known
  stdDevThresholds_wd_known stdDevThresholds_p1b_known
  Sub_def maxDuration_def minDuration_def T0_def unit_defs
  prepare_wd_def prepare_p1b_def WindDirectionAgg_wd_def WindDirectionAgg_p1b_def
  WindDirectionAgg_p1a_def bulk_check_wd_def bulk_check_p1_def
  parse_row_wd_def parse_row_p1_def aggregate_wd_def aggregate_p1b_def aggregate_p1a_def
  cardinal_wd_def cardinal_p1b_def cardinal_p1a_def point_wd_def set_fields_def
  write_tags_def aggregator_tag_def Copy_def ProductName_def dirSeries_def spdSeries_def


theorem failed_write_is_logged_not_returned_witness:
  "(\<exists>tr bp.
       prepare_wd example_library
         (five_minute_world [[CString ''2025-01-13T11:59:00Z'', CNumber ''350'']]) ''1.0'' example_args
         = (tr, Return (Some bp))
     \<and> (\<forall>k < InfluxWriteRetries example_args.
            Write (five_minute_world [[CString ''2025-01-13T11:59:00Z'', CNumber ''350'']]) k bp
              = Some ''timeout'')
     \<and> WindDirectionAgg_wd example_library
         (five_minute_world [[CString ''2025-01-13T11:59:00Z'', CNumber ''350'']]) ''1.0'' example_args
         = (tr @ [Wrote bp, Wrote bp, Logged ''failed to write to Influx: timeout; timeout''],
            Return ()))"
proof -
  let ?W = "five_minute_world [[CString ''2025-01-13T11:59:00Z'', CNumber ''350'']]"
  let ?bp = "[\<lparr>name = ''wx_agg'',
        point_tags = [(''aggregator'', ''wx-station-aggregator-influx/1.0''), (''sta'', ''roof'')],
        point_fields = [(''wd_mean_5m'', Inl 110), (''wd_stddev_5m'', Inl 40),
           (''wd_mean_intercardinal_5m'', Inr ''ESE'')],
        timestamp = T0\<rparr>]"
  have "snd (prepare_wd example_library ?W ''1.0'' example_args) = Return (Some ?bp)"
    by (simp add: run_defs)
  then have h: "prepare_wd example_library ?W ''1.0'' example_args
      = (fst (prepare_wd example_library ?W ''1.0'' example_args), Return (Some ?bp))"
    by (metis prod.collapse)
  have w: "\<forall>k < InfluxWriteRetries example_args. Write ?W k ?bp = Some ''timeout''"
    by (simp add: five_minute_world_def)
  have n: "InfluxWriteRetries example_args = 2"
    by (simp add: example_args_def)
  have t: "Error_text example_library (map (\<lambda>k. ''timeout'') [0..<2]) = ''timeout; timeout''"
  proof -
    have "[0..<2] = [0, Suc 0]" by (simp add: numeral_2_eq_2)
    then show ?thesis by (simp add: example_library_def)
  qed
  have r: "replicate 2 x = [x, x]" for x :: event
    by (simp add: numeral_2_eq_2)
  from failed_write_is_logged_not_returned
    [where L = example_library and W = ?W and Version = "''1.0''" and args = example_args
       and tr = "fst (prepare_wd example_library ?W ''1.0'' example_args)" and bp = ?bp
       and e = "\<lambda>k. ''timeout''"] h w
  have "WindDirectionAgg_wd example_library ?W ''1.0'' example_args
      = (fst (prepare_wd example_library ?W ''1.0'' example_args)
           @ [Wrote ?bp, Wrote ?bp, Logged ''failed to write to Influx: timeout; timeout''],
         Return ())"
    by (simp add: n t r)
  with h w show ?thesis by blast
qed


section \<open>Absence of work and of data\<close>

text \<open>
  In every revision a run with no due interval logs \<^verbatim>\<open>no intervals to calculate\<close> and
  returns success after the six staleness probes, without another query or a write; a
  bulk query that returns no series logs \<^verbatim>\<open>no data to aggregate\<close> and returns success
  without a write; and the loop over the due intervals passes over an empty bucket.
\<close>

lemma nothing_due_is_success:
  "intervalsTodo_wd L W args = (tr, Return []) \<Longrightarrow>
     WindDirectionAgg_wd L W Version args = (tr @ [Logged ''no intervals to calculate''], Return ())"
  "intervalsTodo_p1b L W args = (tr, Return []) \<Longrightarrow>
     WindDirectionAgg_p1b L W Version args = (tr @ [Logged ''no intervals to calculate''], Return ())"
  "intervalsTodo_p1a L W args = (tr, Return []) \<Longrightarrow>
     WindDirectionAgg_p1a L W args = (tr @ [Logged ''no intervals to calculate''], Return [])"
  by (simp_all add: WindDirectionAgg_wd_def prepare_wd_def WindDirectionAgg_p1b_def prepare_p1b_def
      WindDirectionAgg_p1a_def)

lemma no_rows_is_success:
  "intervalsTodo_wd L W args = (tr, Return (first # rest)) \<Longrightarrow>
   bulk_check_wd args (Query W (bulk_query_wd args first (PartialWhereClauseForTags (Tags args))))
     = Return None \<Longrightarrow>
   WindDirectionAgg_wd L W Version args
     = (tr @ [Logged (''[DEBUG] query: ''
                @ bulk_query_wd args first (PartialWhereClauseForTags (Tags args))),
              Queried (bulk_query_wd args first (PartialWhereClauseForTags (Tags args))),
              Logged ''no data to aggregate''], Return ())"
  "intervalsTodo_p1b L W args = (tr, Return (first # rest)) \<Longrightarrow>
   bulk_check_p1 args (Query W (bulk_query_p1 args first (PartialWhereClauseForTags (Tags args))))
     = Return None \<Longrightarrow>
   WindDirectionAgg_p1b L W Version args
     = (tr @ [Logged (''[DEBUG] query: ''
                @ bulk_query_p1 args first (PartialWhereClauseForTags (Tags args))),
              Queried (bulk_query_p1 args first (PartialWhereClauseForTags (Tags args))),
              Logged ''no data to aggregate''], Return ())"
  "intervalsTodo_p1a L W args = (tr, Return (first # rest)) \<Longrightarrow>
   bulk_check_p1 args (Query W (bulk_query_p1 args first (PartialWhereClauseForTags (QueryTags args))))
     = Return None \<Longrightarrow>
   WindDirectionAgg_p1a L W args
     = (tr @ [Queried (bulk_query_p1 args first (PartialWhereClauseForTags (QueryTags args))),
              Logged ''no data to aggregate''], Return [])"
  by (simp_all add: WindDirectionAgg_wd_def prepare_wd_def WindDirectionAgg_p1b_def prepare_p1b_def
      WindDirectionAgg_p1a_def Let_def)

lemma empty_bucket_is_skipped:
  "intervalData interval = [] \<Longrightarrow> aggregate_wd L args intervalData interval flds = Return flds"
  "weighted interval = [] \<Longrightarrow> aggregate_p1b L args tags now weighted interval bp = Return bp"
  "weighted interval = [] \<Longrightarrow> aggregate_p1a L args now weighted interval bp = Return bp"
  by (simp_all add: aggregate_wd_def aggregate_p1b_def aggregate_p1a_def)

lemma all_buckets_empty:
  "\<forall>i \<in> set todo. intervalData i = [] \<Longrightarrow>
     over_intervals (aggregate_wd L args intervalData) todo flds = Return flds"
  "\<forall>i \<in> set todo. weighted i = [] \<Longrightarrow>
     over_intervals (aggregate_p1b L args tags now weighted) todo bp = Return bp"
  "\<forall>i \<in> set todo. weighted i = [] \<Longrightarrow>
     over_intervals (aggregate_p1a L args now weighted) todo bp = Return bp"
  by (induction todo) (simp_all add: empty_bucket_is_skipped)

text \<open>
  C7 fails on wd where the other two revisions keep it. wd builds one point from the
  fields of all due intervals (lines 229-260): when the bulk query returns rows but every
  bucket is empty, the field set is empty and goes to \<^verbatim>\<open>influxdb.NewPoint\<close> all the
  same, whose error the run returns. p1a and p1b build a point inside the loop, after
  the \<^verbatim>\<open>continue\<close>, so an empty bucket never reaches \<^verbatim>\<open>NewPoint\<close>. The input: only
  the 5-minute interval is due, and the one row the store returns is 5 minutes and 1
  second older than the run time (the store answers \<^verbatim>\<open>time >= now()-5m\<close> by its own
  clock, here at least a second behind); \<^verbatim>\<open>NewPoint\<close> refuses a point without fields.
\<close>

theorem wd_fails_when_every_bucket_is_empty:
  "snd (WindDirectionAgg_wd example_library
          (five_minute_world [[CString ''2025-01-13T11:54:59Z'', CNumber ''350'']])
          ''1.0'' example_args)
     = Fail (CreatePointFailed ''point without fields is unsupported'')
   \<and> snd (main_p2 example_library
          (five_minute_world [[CString ''2025-01-13T11:54:59Z'', CNumber ''350'']]) ''1.0''
          \<lparr>measurement = ''wx'', tagsIn = ''sta=roof'', windDirectionField = ''wd'',
           windSpeedField = []\<rparr>)
     = FatalAggregation (CreatePointFailed ''point without fields is unsupported'')
   \<and> snd (WindDirectionAgg_p1b example_library
          (five_minute_world [[CString ''2025-01-13T11:54:59Z'', CNumber ''350'', CNumber ''5'']])
          ''1.0'' example_args)
     = Return ()
   \<and> snd (WindDirectionAgg_p1a example_library
          (five_minute_world [[CString ''2025-01-13T11:54:59Z'', CNumber ''350'', CNumber ''5'']])
          example_args)
     = Return []"
  by (simp add: main_p2_def ParseTags_def influxWriteRetries_def run_defs split: prod.splits)

section \<open>Panics\<close>

text \<open>
  C8 fails on every revision. The cells of a row are read with type assertions without
  \<^verbatim>\<open>, ok\<close> (\<^verbatim>\<open>datapoint[0].(string)\<close>, \<^verbatim>\<open>datapoint[1].(json.Number)\<close>) and the columns
  and rows by index without a length check, so a cell of another dynamic type (a field
  that holds strings, a \<^verbatim>\<open>null\<close> where a row has no wind speed), a series without rows
  or with fewer columns makes the run panic, not return an error: the process crashes.
  The comment above the parsing says that it "could be cleaned up and made a lot more
  robust".
\<close>

theorem unchecked_cells_panic:
  "snd (main_p2 example_library
          (five_minute_world [[CString ''2025-01-13T11:59:00Z'', CString ''NW'']]) ''1.0''
          \<lparr>measurement = ''wx'', tagsIn = ''sta=roof'', windDirectionField = ''wd'',
           windSpeedField = []\<rparr>)
     = Crash (InterfaceConversion (CString ''NW''))
   \<and> snd (main_go example_library
          (five_minute_world [[CString ''2025-01-13T11:59:00Z'', CNumber ''350'', CNil]]) ''1.0''
          \<lparr>measurement = ''wx'', tagsIn = ''sta=roof'', windDirectionField = ''wd'',
           windSpeedField = ''ws''\<rparr>)
     = Crash (InterfaceConversion CNil)
   \<and> snd (WindDirectionAgg_p1b example_library
          (five_minute_world [[CString ''2025-01-13T11:59:00Z'', CNumber ''350'', CNil]])
          ''1.0'' example_args)
     = Panic (InterfaceConversion CNil)
   \<and> staleness_check example_library (due_wd example_world ''5m'')
         (Inr (one_series [''time'', ''wd_mean_5m''] []))
     = Panic (IndexOutOfRange 0 0)
   \<and> bulk_check_wd example_args (Inr (one_series [''time''] []))
     = Panic (IndexOutOfRange 1 1)"
  by (simp add: main_p2_def main_go_def ParseTags_def influxWriteRetries_def index_def run_defs
      split: prod.splits)


end
